theory Spec2Isabelle
  imports Main
begin

section \<open>Transaction serialization (\<open>utils/transaction/serializeTransaction.ts\<close>)\<close>

text \<open>
  A shallow embedding of \<^verbatim>\<open>serializeTransaction\<close>, its four variant encoders and the
  signature tail encoder \<^verbatim>\<open>toYParitySignatureArray\<close>.

  Conventions of the embedding:
  \<^item> a \<^verbatim>\<open>Hex\<close> value is the string itself (\<^verbatim>\<open>'0x'\<close> is \<open>''0x''\<close>);
  \<^item> an optional property is an \<open>option\<close>, \<open>None\<close> standing for \<^verbatim>\<open>undefined\<close>
    (for \<^verbatim>\<open>to\<close>, which may also be \<^verbatim>\<open>null\<close>, \<open>None\<close> stands for both: the
    only use of \<^verbatim>\<open>to\<close> here is \<^verbatim>\<open>to ?? '0x'\<close>, which does not tell them apart);
  \<^item> a \<^verbatim>\<open>number\<close> holding an integer and a \<^verbatim>\<open>bigint\<close> are both \<open>int\<close>;
  \<^item> a \<^verbatim>\<open>throw\<close> is the left injection of a sum, and the order in which the source
    evaluates its calls is the order in which the model looks for the first error;
  \<^item> the functions imported from other modules (\<^verbatim>\<open>toHex\<close>, \<^verbatim>\<open>toRlp\<close>, \<^verbatim>\<open>trim\<close>,
    \<^verbatim>\<open>concatHex\<close>, \<^verbatim>\<open>serializeAccessList\<close>, the four assertions and
    \<^verbatim>\<open>getTransactionType\<close>) are parameters gathered in one record, each of them free
    to return a value or to throw an error of its own type \<open>'e\<close>.
\<close>

subsection \<open>Data model (\<open>types/transaction.ts\<close>)\<close>

type_synonym hex = string

text \<open>What is handed to \<^verbatim>\<open>toRlp\<close>: a \<^verbatim>\<open>RecursiveArray<Hex>\<close>, in which a property
  that was \<^verbatim>\<open>undefined\<close> at run time shows up as \<open>Undefined\<close>.\<close>

datatype rlp_input = Hex hex | Items "rlp_input list" | Undefined

text \<open>\<^verbatim>\<open>yParity\<close> is a \<^verbatim>\<open>number\<close> on a transaction and is declared \<^verbatim>\<open>Hex\<close> on the
  signature argument of \<^verbatim>\<open>toYParitySignatureArray\<close>; the code asks for
  \<^verbatim>\<open>typeof yParity === 'number'\<close>.\<close>

datatype y_parity = YNumber int | YHex hex

record signature =
  r :: "hex option"
  s :: "hex option"
  v :: "int option"
  yParity :: "y_parity option"

type_synonym access_list = "(hex \<times> hex list) list"

text \<open>\<^verbatim>\<open>TransactionSerializableGeneric\<close> with the blob wrapper properties:
  \<^verbatim>\<open>TransactionSerializableBase\<close> includes \<^verbatim>\<open>Partial<Signature>\<close>, hence the extension.\<close>

record transaction = signature +
  type :: "string option"
  chainId :: "int option"
  nonce :: "int option"
  gas :: "int option"
  to :: "hex option"
  "value" :: "int option"
  data :: "hex option"
  gasPrice :: "int option"
  maxFeePerGas :: "int option"
  maxPriorityFeePerGas :: "int option"
  maxFeePerBlobGas :: "int option"
  accessList :: "access_list option"
  blobVersionedHashes :: "hex list option"
  blobs :: "hex list option"
  kzgCommitments :: "hex list option"
  kzgProofs :: "hex list option"

subsection \<open>Errors and imported functions\<close>

text \<open>\<open>External e\<close> is an error thrown by an imported function; \<open>TypeError\<close> is the
  run-time error of \<^verbatim>\<open>35n + undefined\<close> (a bigint mixed with another type).\<close>

datatype 'e error = External 'e | InvalidLegacyVError "int option" | TypeError

text \<open>The argument of \<^verbatim>\<open>toHex\<close> is \<open>None\<close> where the source passes a property that is
  \<^verbatim>\<open>undefined\<close> at run time (\<^verbatim>\<open>toHex(chainId)\<close> of a record without chain id).\<close>

record 'e collaborators =
  toHex :: "int option \<Rightarrow> 'e + hex"
  toRlp :: "rlp_input \<Rightarrow> 'e + hex"
  trim :: "hex \<Rightarrow> 'e + hex"
  concatHex :: "hex list \<Rightarrow> 'e + hex"
  serializeAccessList :: "access_list option \<Rightarrow> 'e + rlp_input"
  assertTransactionEIP1559 :: "transaction \<Rightarrow> 'e option"
  assertTransactionEIP2930 :: "transaction \<Rightarrow> 'e option"
  assertTransactionEIP4844 :: "transaction \<Rightarrow> 'e option"
  assertTransactionLegacy :: "transaction \<Rightarrow> 'e option"
  getTransactionType :: "transaction \<Rightarrow> 'e + string"

subsection \<open>Sequencing\<close>

definition and_then :: "'x + 'a \<Rightarrow> ('a \<Rightarrow> 'x + 'b) \<Rightarrow> 'x + 'b" where
  "and_then m f = (case m of Inl e \<Rightarrow> Inl e | Inr a \<Rightarrow> f a)"

text \<open>The elements of an array literal are evaluated from left to right; the first one
  that throws ends the evaluation.\<close>

fun array_literal :: "('x + 'a) list \<Rightarrow> 'x + 'a list" where
  "array_literal [] = Inr []"
| "array_literal (m # ms) =
     (case m of
        Inl e \<Rightarrow> Inl e
      | Inr a \<Rightarrow> (case array_literal ms of Inl e \<Rightarrow> Inl e | Inr as \<Rightarrow> Inr (a # as)))"

declare array_literal.simps [simp del]

definition external :: "'e + 'a \<Rightarrow> 'e error + 'a" where
  "external m = (case m of Inl e \<Rightarrow> Inl (External e) | Inr a \<Rightarrow> Inr a)"

text \<open>\<^verbatim>\<open>toHex(x)\<close> as an element of a field list.\<close>

definition toHexField :: "'e collaborators \<Rightarrow> int option \<Rightarrow> 'e error + rlp_input" where
  "toHexField env x = and_then (external (toHex env x)) (\<lambda>h. Inr (Hex h))"

text \<open>The truthiness of an optional \<^verbatim>\<open>number\<close> or \<^verbatim>\<open>bigint\<close>: \<^verbatim>\<open>undefined\<close>, \<^verbatim>\<open>0\<close>
  and \<^verbatim>\<open>0n\<close> are falsy.\<close>

definition truthy :: "int option \<Rightarrow> bool" where
  "truthy x = (case x of None \<Rightarrow> False | Some n \<Rightarrow> n \<noteq> 0)"

text \<open>\<^verbatim>\<open>x ? toHex(x) : '0x'\<close>.\<close>

definition toHexOrEmpty :: "'e collaborators \<Rightarrow> int option \<Rightarrow> 'e error + rlp_input" where
  "toHexOrEmpty env x = (if truthy x then toHexField env x else Inr (Hex ''0x''))"

text \<open>\<^verbatim>\<open>x ?? '0x'\<close>.\<close>

definition orEmpty :: "hex option \<Rightarrow> 'x + rlp_input" where
  "orEmpty x = (case x of None \<Rightarrow> Inr (Hex ''0x'') | Some h \<Rightarrow> Inr (Hex h))"

text \<open>A property placed in an array as it is.\<close>

definition field :: "hex option \<Rightarrow> rlp_input" where
  "field x = (case x of None \<Rightarrow> Undefined | Some h \<Rightarrow> Hex h)"

definition fieldList :: "hex list option \<Rightarrow> rlp_input" where
  "fieldList x = (case x of None \<Rightarrow> Undefined | Some hs \<Rightarrow> Items (map Hex hs))"

subsection \<open>\<open>toYParitySignatureArray\<close>\<close>

text \<open>The immediately invoked function that computes \<^verbatim>\<open>yParity_\<close>.\<close>

definition yParity_hex :: "'e collaborators \<Rightarrow> signature \<Rightarrow> 'e error + rlp_input" where
  "yParity_hex env sg =
     (case yParity sg of
        Some (YNumber n) \<Rightarrow> toHexField env (Some n)
      | _ \<Rightarrow>
          if v sg = Some 0 then Inr (Hex ''0x'')
          else if v sg = Some 1 then toHexField env (Some 1)
          else if v sg = Some 27 then Inr (Hex ''0x'') else toHexField env (Some 1))"

definition toYParitySignatureArray ::
  "'e collaborators \<Rightarrow> transaction \<Rightarrow> signature option \<Rightarrow> 'e error + rlp_input list" where
  "toYParitySignatureArray env transaction signature =
     (let sg = (case signature of None \<Rightarrow> signature.truncate transaction | Some x \<Rightarrow> x) in
      case r sg of
        None \<Rightarrow> Inr []
      | Some r' \<Rightarrow>
          (case s sg of
             None \<Rightarrow> Inr []
           | Some s' \<Rightarrow>
               if v sg = None \<and> yParity sg = None then Inr []
               else
                 and_then (yParity_hex env sg) (\<lambda>y.
                 and_then (external (trim env r')) (\<lambda>tr.
                 and_then (external (trim env s')) (\<lambda>ts.
                   Inr [y, Hex tr, Hex ts])))))"

subsection \<open>\<open>serializeTransactionLegacy\<close>\<close>

text \<open>The immediately invoked function that computes \<^verbatim>\<open>v\<close>. The first argument is
  \<^verbatim>\<open>chainId\<close> after its default \<^verbatim>\<open>0\<close>. With \<^verbatim>\<open>signature.v\<close> undefined,
  \<^verbatim>\<open>35n + signature.v\<close> is a \<^verbatim>\<open>TypeError\<close>, \<^verbatim>\<open>signature.v >= 35n\<close> is false and
  \<^verbatim>\<open>signature.v !== 28n\<close> is true. The bigint division is only reached with a
  dividend that is not negative, where it agrees with \<open>div\<close>.\<close>

definition legacy_v :: "int \<Rightarrow> signature \<Rightarrow> 'e error + int" where
  "legacy_v cid sg =
     (case v sg of
        None \<Rightarrow> if cid > 0 then Inl TypeError else Inl (InvalidLegacyVError None)
      | Some sv \<Rightarrow>
          if cid > 0 then Inr (cid * 2 + (35 + sv - 27))
          else if sv \<ge> 35 then
            (let inferredChainId = (sv - 35) div 2 in
             if inferredChainId > 0 then Inr sv
             else Inr (27 + (if sv = 35 then 0 else 1)))
          else
            (let v' = 27 + (if sv = 27 then 0 else 1) in
             if sv \<noteq> v' then Inl (InvalidLegacyVError (Some sv)) else Inr v'))"

text \<open>The final value of the variable \<^verbatim>\<open>serializedTransaction\<close>.\<close>

definition serializedTransactionLegacy ::
  "'e collaborators \<Rightarrow> transaction \<Rightarrow> signature option \<Rightarrow> 'e error + rlp_input list" where
  "serializedTransactionLegacy env transaction signature =
     (let cid = (case chainId transaction of None \<Rightarrow> 0 | Some c \<Rightarrow> c) in
      and_then
        (array_literal
          [toHexOrEmpty env (nonce transaction),
           toHexOrEmpty env (gasPrice transaction),
           toHexOrEmpty env (gas transaction),
           orEmpty (to transaction),
           toHexOrEmpty env (value transaction),
           orEmpty (data transaction)])
        (\<lambda>base.
           case signature of
             Some sg \<Rightarrow>
               and_then (legacy_v cid sg) (\<lambda>v'.
               and_then (toHexField env (Some v')) (\<lambda>hv.
                 Inr (base @ [hv, field (r sg), field (s sg)])))
           | None \<Rightarrow>
               if cid > 0 then
                 and_then (toHexField env (Some cid)) (\<lambda>hc.
                   Inr (base @ [hc, Hex ''0x'', Hex ''0x'']))
               else Inr base))"

definition serializeTransactionLegacy ::
  "'e collaborators \<Rightarrow> transaction \<Rightarrow> signature option \<Rightarrow> 'e error + hex" where
  "serializeTransactionLegacy env transaction signature =
     (case assertTransactionLegacy env transaction of
        Some e \<Rightarrow> Inl (External e)
      | None \<Rightarrow>
          and_then (serializedTransactionLegacy env transaction signature) (\<lambda>fields.
            external (toRlp env (Items fields))))"

subsection \<open>\<open>serializeTransactionEIP2930\<close>\<close>

definition serializedTransactionEIP2930 ::
  "'e collaborators \<Rightarrow> transaction \<Rightarrow> signature option \<Rightarrow> rlp_input
     \<Rightarrow> 'e error + rlp_input list" where
  "serializedTransactionEIP2930 env transaction signature serializedAccessList =
     and_then
       (array_literal
         [toHexField env (chainId transaction),
          toHexOrEmpty env (nonce transaction),
          toHexOrEmpty env (gasPrice transaction),
          toHexOrEmpty env (gas transaction),
          orEmpty (to transaction),
          toHexOrEmpty env (value transaction),
          orEmpty (data transaction),
          Inr serializedAccessList])
       (\<lambda>base.
          and_then (toYParitySignatureArray env transaction signature) (\<lambda>tail.
            Inr (base @ tail)))"

definition serializeTransactionEIP2930 ::
  "'e collaborators \<Rightarrow> transaction \<Rightarrow> signature option \<Rightarrow> 'e error + hex" where
  "serializeTransactionEIP2930 env transaction signature =
     (case assertTransactionEIP2930 env transaction of
        Some e \<Rightarrow> Inl (External e)
      | None \<Rightarrow>
          and_then (external (serializeAccessList env (accessList transaction))) (\<lambda>al.
          and_then (serializedTransactionEIP2930 env transaction signature al) (\<lambda>fields.
          and_then (external (toRlp env (Items fields))) (\<lambda>body.
            external (concatHex env [''0x01'', body])))))"

subsection \<open>\<open>serializeTransactionEIP1559\<close>\<close>

definition serializedTransactionEIP1559 ::
  "'e collaborators \<Rightarrow> transaction \<Rightarrow> signature option \<Rightarrow> rlp_input
     \<Rightarrow> 'e error + rlp_input list" where
  "serializedTransactionEIP1559 env transaction signature serializedAccessList =
     and_then
       (array_literal
         [toHexField env (chainId transaction),
          toHexOrEmpty env (nonce transaction),
          toHexOrEmpty env (maxPriorityFeePerGas transaction),
          toHexOrEmpty env (maxFeePerGas transaction),
          toHexOrEmpty env (gas transaction),
          orEmpty (to transaction),
          toHexOrEmpty env (value transaction),
          orEmpty (data transaction),
          Inr serializedAccessList])
       (\<lambda>base.
          and_then (toYParitySignatureArray env transaction signature) (\<lambda>tail.
            Inr (base @ tail)))"

definition serializeTransactionEIP1559 ::
  "'e collaborators \<Rightarrow> transaction \<Rightarrow> signature option \<Rightarrow> 'e error + hex" where
  "serializeTransactionEIP1559 env transaction signature =
     (case assertTransactionEIP1559 env transaction of
        Some e \<Rightarrow> Inl (External e)
      | None \<Rightarrow>
          and_then (external (serializeAccessList env (accessList transaction))) (\<lambda>al.
          and_then (serializedTransactionEIP1559 env transaction signature al) (\<lambda>fields.
          and_then (external (toRlp env (Items fields))) (\<lambda>body.
            external (concatHex env [''0x02'', body])))))"

subsection \<open>\<open>serializeTransactionEIP4844\<close>\<close>

definition serializedTransactionEIP4844 ::
  "'e collaborators \<Rightarrow> transaction \<Rightarrow> signature option \<Rightarrow> rlp_input
     \<Rightarrow> 'e error + rlp_input list" where
  "serializedTransactionEIP4844 env transaction signature serializedAccessList =
     and_then
       (array_literal
         [toHexField env (chainId transaction),
          toHexOrEmpty env (nonce transaction),
          toHexOrEmpty env (maxPriorityFeePerGas transaction),
          toHexOrEmpty env (maxFeePerGas transaction),
          toHexOrEmpty env (gas transaction),
          orEmpty (to transaction),
          toHexOrEmpty env (value transaction),
          orEmpty (data transaction),
          Inr serializedAccessList,
          toHexOrEmpty env (maxFeePerBlobGas transaction),
          Inr (fieldList (blobVersionedHashes transaction))])
       (\<lambda>base.
          and_then (toYParitySignatureArray env transaction signature) (\<lambda>tail.
            Inr (base @ tail)))"

text \<open>\<^verbatim>\<open>blobs ? toRlp([serializedTransaction, blobs, kzgCommitments, kzgProofs])
  : toRlp(serializedTransaction)\<close>: an array, even an empty one, is truthy.\<close>

definition serializeTransactionEIP4844 ::
  "'e collaborators \<Rightarrow> transaction \<Rightarrow> signature option \<Rightarrow> 'e error + hex" where
  "serializeTransactionEIP4844 env transaction signature =
     (case assertTransactionEIP4844 env transaction of
        Some e \<Rightarrow> Inl (External e)
      | None \<Rightarrow>
          and_then (external (serializeAccessList env (accessList transaction))) (\<lambda>al.
          and_then (serializedTransactionEIP4844 env transaction signature al) (\<lambda>fields.
          and_then
            (external (toRlp env
               (case blobs transaction of
                  Some bs \<Rightarrow>
                    Items [Items fields, Items (map Hex bs),
                           fieldList (kzgCommitments transaction),
                           fieldList (kzgProofs transaction)]
                | None \<Rightarrow> Items fields)))
            (\<lambda>body. external (concatHex env [''0x03'', body])))))"

subsection \<open>\<open>serializeTransaction\<close>\<close>

definition serializeTransaction ::
  "'e collaborators \<Rightarrow> transaction \<Rightarrow> signature option \<Rightarrow> 'e error + hex" where
  "serializeTransaction env transaction signature =
     and_then (external (getTransactionType env transaction)) (\<lambda>type'.
       if type' = ''eip1559'' then serializeTransactionEIP1559 env transaction signature
       else if type' = ''eip2930'' then serializeTransactionEIP2930 env transaction signature
       else if type' = ''eip4844'' then serializeTransactionEIP4844 env transaction signature
       else serializeTransactionLegacy env transaction signature)"

section \<open>Reference collaborators\<close>

text \<open>
  One concrete choice of the imported functions, used to run the encoders on concrete
  records. None of the general theorems below depends on it.
\<close>

datatype ref_error = ValidationError | IntegerOutOfRange | InvalidInput

text \<open>Modelled from the spec: hexadecimal strings and the byte values they stand for,
  which the functions below share (the conversion modules are missing). A byte is an
  integer between 0 and 255.\<close>

definition hex_digit :: "int \<Rightarrow> char" where
  "hex_digit n = ''0123456789abcdef'' ! nat (n mod 16)"

definition byte_hex :: "int \<Rightarrow> string" where
  "byte_hex b = [hex_digit (b div 16), hex_digit b]"

definition bytes_hex :: "int list \<Rightarrow> hex" where
  "bytes_hex bs = ''0x'' @ concat (map byte_hex bs)"

function be_bytes :: "int \<Rightarrow> int list" where
  "be_bytes n = (if n \<le> 0 then [] else be_bytes (n div 256) @ [n mod 256])"
  by pat_completeness auto
termination
  by (relation "measure nat") auto

declare be_bytes.simps [simp del]

definition digit_val :: "char \<Rightarrow> int option" where
  "digit_val c =
     (let n = (of_char c :: int) in
      if 48 \<le> n \<and> n \<le> 57 then Some (n - 48)
      else if 97 \<le> n \<and> n \<le> 102 then Some (n - 87)
      else if 65 \<le> n \<and> n \<le> 70 then Some (n - 55)
      else None)"

fun pairs_bytes :: "string \<Rightarrow> int list option" where
  "pairs_bytes [] = Some []"
| "pairs_bytes [c] = None"
| "pairs_bytes (c # d # cs) =
     (case (digit_val c, digit_val d, pairs_bytes cs) of
        (Some h, Some l, Some bs) \<Rightarrow> Some ((16 * h + l) # bs)
      | _ \<Rightarrow> None)"

definition hex_bytes :: "hex \<Rightarrow> int list option" where
  "hex_bytes h =
     (if take 2 h = ''0x'' then
        (let ds = drop 2 h in pairs_bytes (if odd (length ds) then CHR ''0'' # ds else ds))
      else None)"

text \<open>Modelled from the spec: \<^verbatim>\<open>toHexMinimal(number)\<close>, the minimal big-endian hex byte
  representation of an unsigned integer, with no leading zero bytes, zero being the
  empty placeholder. \<^verbatim>\<open>encoding/toHex.ts\<close> is missing.\<close>

definition toHex_ref :: "int option \<Rightarrow> ref_error + hex" where
  "toHex_ref x =
     (case x of
        None \<Rightarrow> Inl InvalidInput
      | Some n \<Rightarrow> if n < 0 then Inl IntegerOutOfRange else Inr (bytes_hex (be_bytes n)))"

text \<open>Modelled from the spec: \<^verbatim>\<open>trimLeadingZeros(bytes)\<close>, which strips the leading zero
  bytes of a byte value. \<^verbatim>\<open>data/trim.ts\<close> is missing.\<close>

definition trim_ref :: "hex \<Rightarrow> ref_error + hex" where
  "trim_ref h =
     (case hex_bytes h of
        None \<Rightarrow> Inl InvalidInput
      | Some bs \<Rightarrow> Inr (bytes_hex (dropWhile (\<lambda>b. b = 0) bs)))"

text \<open>Modelled from the spec: the marker is prepended to the encoding as a single byte.
  \<^verbatim>\<open>data/concat.ts\<close> is missing.\<close>

definition concatHex_ref :: "hex list \<Rightarrow> ref_error + hex" where
  "concatHex_ref hs = Inr (''0x'' @ concat (map (drop 2) hs))"

text \<open>Modelled from the spec: \<^verbatim>\<open>encodeList(fields)\<close>, the length-prefixed encoding of a
  byte string or of a nested sequence (RLP). \<^verbatim>\<open>encoding/toRlp.ts\<close> is missing.\<close>

definition length_prefix :: "int \<Rightarrow> nat \<Rightarrow> int list" where
  "length_prefix offset len =
     (if len \<le> 55 then [offset + int len]
      else (offset + 55 + int (length (be_bytes (int len)))) # be_bytes (int len))"

fun those_bytes :: "int list option list \<Rightarrow> int list option" where
  "those_bytes [] = Some []"
| "those_bytes (None # _) = None"
| "those_bytes (Some bs # rest) =
     (case those_bytes rest of None \<Rightarrow> None | Some cs \<Rightarrow> Some (bs @ cs))"

fun rlp_bytes :: "rlp_input \<Rightarrow> int list option" where
  "rlp_bytes (Hex h) =
     (case hex_bytes h of
        None \<Rightarrow> None
      | Some bs \<Rightarrow>
          Some (if length bs = 1 \<and> hd bs < 128 then bs
                else length_prefix 128 (length bs) @ bs))"
| "rlp_bytes (Items xs) =
     (case those_bytes (map rlp_bytes xs) of
        None \<Rightarrow> None
      | Some payload \<Rightarrow> Some (length_prefix 192 (length payload) @ payload))"
| "rlp_bytes Undefined = None"

definition toRlp_ref :: "rlp_input \<Rightarrow> ref_error + hex" where
  "toRlp_ref x = (case rlp_bytes x of None \<Rightarrow> Inl InvalidInput | Some bs \<Rightarrow> Inr (bytes_hex bs))"

text \<open>Modelled from the spec: \<^verbatim>\<open>encodeAccessList(list)\<close>, the nested list of
  address and storage keys of each entry. \<^verbatim>\<open>serializeAccessList.ts\<close> is missing.\<close>

definition serializeAccessList_ref :: "access_list option \<Rightarrow> ref_error + rlp_input" where
  "serializeAccessList_ref al =
     (case al of
        None \<Rightarrow> Inr (Items [])
      | Some entries \<Rightarrow>
          Inr (Items (map (\<lambda>(address, storageKeys). Items [Hex address, Items (map Hex storageKeys)])
                 entries)))"

text \<open>Modelled from the spec: the assertions check the presence of the required chain
  id and the range of the numeric fields (unsigned). \<^verbatim>\<open>assertTransaction.ts\<close> is
  missing.\<close>

definition unsigned_fields :: "transaction \<Rightarrow> bool" where
  "unsigned_fields tx =
     list_all (\<lambda>x. case x of None \<Rightarrow> True | Some n \<Rightarrow> 0 \<le> n)
       [nonce tx, gas tx, value tx, gasPrice tx, maxFeePerGas tx, maxPriorityFeePerGas tx,
        maxFeePerBlobGas tx]"

definition assertTyped_ref :: "transaction \<Rightarrow> ref_error option" where
  "assertTyped_ref tx =
     (case chainId tx of
        None \<Rightarrow> Some ValidationError
      | Some c \<Rightarrow> if 0 < c \<and> unsigned_fields tx then None else Some ValidationError)"

definition assertLegacy_ref :: "transaction \<Rightarrow> ref_error option" where
  "assertLegacy_ref tx =
     (case chainId tx of
        None \<Rightarrow> if unsigned_fields tx then None else Some ValidationError
      | Some c \<Rightarrow> if 0 \<le> c \<and> unsigned_fields tx then None else Some ValidationError)"

text \<open>Modelled from the spec: the dispatcher's resolution order. An explicit type tag
  is authoritative; then blob fields, fee-market fields, an access list or a chain id,
  and legacy otherwise. \<^verbatim>\<open>getTransactionType.ts\<close> is missing.\<close>

definition getTransactionType_ref :: "transaction \<Rightarrow> ref_error + string" where
  "getTransactionType_ref tx =
     (case type tx of
        Some t \<Rightarrow> Inr t
      | None \<Rightarrow>
          if blobs tx \<noteq> None \<or> blobVersionedHashes tx \<noteq> None \<or> maxFeePerBlobGas tx \<noteq> None
          then Inr ''eip4844''
          else if maxFeePerGas tx \<noteq> None \<or> maxPriorityFeePerGas tx \<noteq> None then Inr ''eip1559''
          else if accessList tx \<noteq> None \<or> chainId tx \<noteq> None then Inr ''eip2930''
          else Inr ''legacy'')"

definition ref :: "ref_error collaborators" where
  "ref =
     \<lparr>toHex = toHex_ref, toRlp = toRlp_ref, trim = trim_ref, concatHex = concatHex_ref,
      serializeAccessList = serializeAccessList_ref,
      assertTransactionEIP1559 = assertTyped_ref,
      assertTransactionEIP2930 = assertTyped_ref,
      assertTransactionEIP4844 = assertTyped_ref,
      assertTransactionLegacy = assertLegacy_ref,
      getTransactionType = getTransactionType_ref\<rparr>"

text \<open>A record with every property undefined.\<close>

definition empty_transaction :: transaction where
  "empty_transaction =
     \<lparr>r = None, s = None, v = None, yParity = None,
      type = None, chainId = None, nonce = None, gas = None, to = None, value = None,
      data = None, gasPrice = None, maxFeePerGas = None, maxPriorityFeePerGas = None,
      maxFeePerBlobGas = None, accessList = None, blobVersionedHashes = None,
      blobs = None, kzgCommitments = None, kzgProofs = None\<rparr>"

subsection \<open>Example records\<close>

text \<open>The transaction and the signature of the example of EIP-155.\<close>

definition tx155 :: transaction where
  "tx155 =
     empty_transaction\<lparr>chainId := Some 1, nonce := Some 9, gasPrice := Some 20000000000,
       gas := Some 21000, to := Some ''0x3535353535353535353535353535353535353535'',
       value := Some 1000000000000000000\<rparr>"

definition sig155 :: signature where
  "sig155 =
     \<lparr>r = Some ''0x28ef61340bd939bc2169fe3a2e0bbfb2e4a0d0c5e5b8a6b7a3d1c9d48a5f2f3a'',
      s = Some ''0x67cbe9d8997f761aecb703304b3800ccf555c9f3dc64214b297fb1966a3b6d83'',
      v = Some 27, yParity = None\<rparr>"

text \<open>A short signature with leading zero bytes, its recovery value left open.\<close>

definition sig_v :: "int \<Rightarrow> signature" where
  "sig_v n = \<lparr>r = Some ''0x0001'', s = Some ''0x02'', v = Some n, yParity = None\<rparr>"

text \<open>Typed records built on the same fields.\<close>

definition tx1559 :: transaction where
  "tx1559 =
     tx155\<lparr>gasPrice := None, maxFeePerGas := Some 20000000000,
       maxPriorityFeePerGas := Some 1000000000\<rparr>"

definition tx2930 :: transaction where
  "tx2930 =
     tx155\<lparr>accessList := Some [(''0x3535353535353535353535353535353535353535'', [''0x01''])]\<rparr>"

definition tx4844 :: transaction where
  "tx4844 = tx1559\<lparr>maxFeePerBlobGas := Some 3, blobVersionedHashes := Some [''0x01ab'']\<rparr>"

definition tx4844_wrapper :: transaction where
  "tx4844_wrapper =
     tx4844\<lparr>blobs := Some [''0xaabb''], kzgCommitments := Some [''0xcc''],
       kzgProofs := Some [''0xdd'']\<rparr>"

text \<open>A typed record that carries a complete signature of its own, and a signature
  object without \<open>r\<close>.\<close>

definition tx1559_signed :: transaction where
  "tx1559_signed = tx1559\<lparr>r := Some ''0x0001'', s := Some ''0x02'', v := Some 28\<rparr>"

definition sig_without_r :: signature where
  "sig_without_r = \<lparr>r = None, s = Some ''0x02'', v = Some 28, yParity = None\<rparr>"


section \<open>Basic facts\<close>

lemma and_then_Inr_iff: "and_then m f = Inr y \<longleftrightarrow> (\<exists>a. m = Inr a \<and> f a = Inr y)"
  by (cases m) (simp_all add: and_then_def)

lemma and_then_Inl_iff:
  "and_then m f = Inl e \<longleftrightarrow> m = Inl e \<or> (\<exists>a. m = Inr a \<and> f a = Inl e)"
  by (cases m) (simp_all add: and_then_def)

lemma external_Inr_iff: "external m = Inr a \<longleftrightarrow> m = Inr a"
  by (cases m) (simp_all add: external_def)

lemma external_Inl_iff: "external m = Inl e \<longleftrightarrow> (\<exists>x. m = Inl x \<and> e = External x)"
  by (cases m) (auto simp: external_def)

lemma toHexField_Inr_iff:
  "toHexField env x = Inr y \<longleftrightarrow> (\<exists>h. toHex env x = Inr h \<and> y = Hex h)"
  by (auto simp: toHexField_def and_then_Inr_iff external_Inr_iff)

lemma toHexField_Inl_iff:
  "toHexField env x = Inl e \<longleftrightarrow> (\<exists>x'. toHex env x = Inl x' \<and> e = External x')"
  by (auto simp: toHexField_def and_then_Inl_iff external_Inl_iff)

lemma array_literal_Cons_Inr_iff:
  "array_literal (m # ms) = Inr ys \<longleftrightarrow>
     (\<exists>a as. m = Inr a \<and> array_literal ms = Inr as \<and> ys = a # as)"
  by (auto simp: array_literal.simps split: sum.splits)

lemma array_literal_Nil_Inr_iff: "array_literal [] = Inr ys \<longleftrightarrow> ys = []"
  by (auto simp: array_literal.simps)

lemmas Inr_iffs =
  and_then_Inr_iff external_Inr_iff toHexField_Inr_iff
  array_literal_Cons_Inr_iff array_literal_Nil_Inr_iff

lemma orEmpty_eq: "orEmpty x = Inr (Hex (case x of None \<Rightarrow> ''0x'' | Some h \<Rightarrow> h))"
  by (cases x) (simp_all add: orEmpty_def)


lemma array_literal_Inl: "array_literal ms = Inl e \<Longrightarrow> Inl e \<in> set ms"
  by (induction ms) (auto simp: array_literal.simps split: sum.splits)

lemma toHexField_Inl: "Inl e = toHexField env x \<Longrightarrow> \<exists>x'. e = External x'"
  by (auto simp: toHexField_def and_then_def external_def split: sum.splits)

lemma toHexOrEmpty_Inl: "Inl e = toHexOrEmpty env x \<Longrightarrow> \<exists>x'. e = External x'"
  by (auto simp: toHexOrEmpty_def dest: toHexField_Inl split: if_splits)

lemma yParity_hex_Inl:
  "yParity_hex env sg = Inl e \<Longrightarrow> \<exists>x'. e = External x'"
  by (auto simp: yParity_hex_def toHexField_Inl_iff split: option.splits y_parity.splits if_splits)

lemma toYParitySignatureArray_Inl:
  "toYParitySignatureArray env tx sig = Inl e \<Longrightarrow> \<exists>x'. e = External x'"
  unfolding toYParitySignatureArray_def Let_def
  by (auto simp: and_then_Inl_iff external_Inl_iff dest: yParity_hex_Inl
           split: option.splits if_splits)

lemma serializedTransactionEIP1559_Inl:
  "serializedTransactionEIP1559 env tx sig al = Inl e \<Longrightarrow> \<exists>x'. e = External x'"
  unfolding serializedTransactionEIP1559_def
  by (auto simp: and_then_Inl_iff orEmpty_eq
           dest!: array_literal_Inl dest: toHexField_Inl toHexOrEmpty_Inl toYParitySignatureArray_Inl)

lemma serializedTransactionEIP2930_Inl:
  "serializedTransactionEIP2930 env tx sig al = Inl e \<Longrightarrow> \<exists>x'. e = External x'"
  unfolding serializedTransactionEIP2930_def
  by (auto simp: and_then_Inl_iff orEmpty_eq
           dest!: array_literal_Inl dest: toHexField_Inl toHexOrEmpty_Inl toYParitySignatureArray_Inl)

lemma serializedTransactionEIP4844_Inl:
  "serializedTransactionEIP4844 env tx sig al = Inl e \<Longrightarrow> \<exists>x'. e = External x'"
  unfolding serializedTransactionEIP4844_def
  by (auto simp: and_then_Inl_iff orEmpty_eq
           dest!: array_literal_Inl dest: toHexField_Inl toHexOrEmpty_Inl toYParitySignatureArray_Inl)

lemma serializeTransactionEIP1559_Inl:
  "serializeTransactionEIP1559 env tx sig = Inl e \<Longrightarrow> \<exists>x'. e = External x'"
  unfolding serializeTransactionEIP1559_def
  by (auto simp: and_then_Inl_iff external_Inl_iff dest: serializedTransactionEIP1559_Inl
           split: option.splits)

lemma serializeTransactionEIP2930_Inl:
  "serializeTransactionEIP2930 env tx sig = Inl e \<Longrightarrow> \<exists>x'. e = External x'"
  unfolding serializeTransactionEIP2930_def
  by (auto simp: and_then_Inl_iff external_Inl_iff dest: serializedTransactionEIP2930_Inl
           split: option.splits)

lemma serializeTransactionEIP4844_Inl:
  "serializeTransactionEIP4844 env tx sig = Inl e \<Longrightarrow> \<exists>x'. e = External x'"
  unfolding serializeTransactionEIP4844_def
  by (auto simp: and_then_Inl_iff external_Inl_iff dest: serializedTransactionEIP4844_Inl
           split: option.splits)

section \<open>The legacy recovery value\<close>

text \<open>
  C1. For a legacy record and a supplied signature with recovery value \<open>sv\<close>, the value
  \<open>v\<close> that is encoded follows three rules tried in order, \<open>cid\<close> being the chain id of
  the record after its default 0: with \<open>cid > 0\<close> it is \<open>cid * 2 + 35 + (sv - 27)\<close>;
  otherwise, with \<open>sv \<ge> 35\<close> and the inferred chain id \<open>(sv - 35) div 2\<close>, it is \<open>sv\<close>
  itself when the inferred chain id is positive, and 27 for \<open>sv = 35\<close>, 28 for any other
  \<open>sv\<close> when it is not; otherwise 27 and 28 stay as they are. Whenever the field list is
  built, its seventh element is \<^verbatim>\<open>toHex\<close> of this value.
\<close>

theorem legacy_recovery_value:
  fixes env :: "'e collaborators" and lv :: "'e error + int"
  assumes "v sg = Some sv" and "cid = (case chainId tx of None \<Rightarrow> 0 | Some c \<Rightarrow> c)"
    and "lv = legacy_v cid sg"
  shows "(cid > 0 \<longrightarrow> lv = Inr (cid * 2 + 35 + (sv - 27))) \<and>
         (\<not> cid > 0 \<and> sv \<ge> 35 \<and> (sv - 35) div 2 > 0 \<longrightarrow> lv = Inr sv) \<and>
         (\<not> cid > 0 \<and> sv \<ge> 35 \<and> \<not> (sv - 35) div 2 > 0 \<longrightarrow>
            lv = Inr (if sv = 35 then 27 else 28)) \<and>
         (\<not> cid > 0 \<and> sv = 27 \<longrightarrow> lv = Inr 27) \<and>
         (\<not> cid > 0 \<and> sv = 28 \<longrightarrow> lv = Inr 28) \<and>
         (\<forall>fs. serializedTransactionLegacy env tx (Some sg) = Inr fs \<longrightarrow>
            (\<exists>v' hv. lv = Inr v' \<and> toHex env (Some v') = Inr hv \<and>
               length fs = 9 \<and> fs ! 6 = Hex hv))"
proof -
  have rules: "(cid > 0 \<longrightarrow> lv = Inr (cid * 2 + 35 + (sv - 27))) \<and>
         (\<not> cid > 0 \<and> sv \<ge> 35 \<and> (sv - 35) div 2 > 0 \<longrightarrow> lv = Inr sv) \<and>
         (\<not> cid > 0 \<and> sv \<ge> 35 \<and> \<not> (sv - 35) div 2 > 0 \<longrightarrow>
            lv = Inr (if sv = 35 then 27 else 28)) \<and>
         (\<not> cid > 0 \<and> sv = 27 \<longrightarrow> lv = Inr 27) \<and>
         (\<not> cid > 0 \<and> sv = 28 \<longrightarrow> lv = Inr 28)"
    using assms(1,3) by (simp add: legacy_v_def Let_def)
  have encoded: "\<exists>v' hv. lv = Inr v' \<and> toHex env (Some v') = Inr hv \<and>
      length fs = 9 \<and> fs ! 6 = Hex hv"
    if "serializedTransactionLegacy env tx (Some sg) = Inr fs" for fs
    using that assms(2,3) unfolding serializedTransactionLegacy_def Let_def
    by (auto simp: Inr_iffs nth_append)
  from rules encoded show ?thesis by blast
qed

theorem legacy_recovery_value_witness:
  "legacy_v 1 (sig_v 27) = (Inr 37 :: ref_error error + int) \<and>
   legacy_v 0 (sig_v 37) = (Inr 37 :: ref_error error + int) \<and>
   legacy_v 0 (sig_v 35) = (Inr 27 :: ref_error error + int)"
proof -
  have "legacy_v 1 (sig_v 27) = (Inr 37 :: ref_error error + int)"
    using legacy_recovery_value
      [where sg = "sig_v 27" and sv = 27 and cid = 1 and env = ref
         and tx = "empty_transaction\<lparr>chainId := Some 1\<rparr>", OF _ _ refl]
    by (simp add: sig_v_def)
  moreover have "legacy_v 0 (sig_v 37) = (Inr 37 :: ref_error error + int)"
    using legacy_recovery_value
      [where sg = "sig_v 37" and sv = 37 and cid = 0 and env = ref and tx = empty_transaction,
         OF _ _ refl]
    by (simp add: sig_v_def empty_transaction_def)
  moreover have "legacy_v 0 (sig_v 35) = (Inr 27 :: ref_error error + int)"
    using legacy_recovery_value
      [where sg = "sig_v 35" and sv = 35 and cid = 0 and env = ref and tx = empty_transaction,
         OF _ _ refl]
    by (simp add: sig_v_def empty_transaction_def)
  ultimately show ?thesis by simp
qed

section \<open>The signature tail\<close>

lemma yParity_hex_Inr_iff:
  "yParity_hex env sg = Inr y \<longleftrightarrow>
     (\<exists>p. y = Hex p \<and>
        (case yParity sg of
           Some (YNumber n) \<Rightarrow> toHex env (Some n) = Inr p
         | _ \<Rightarrow> if v sg = Some 0 \<or> v sg = Some 27 then p = ''0x''
                else toHex env (Some 1) = Inr p))"
  unfolding yParity_hex_def
  by (auto simp: toHexField_Inr_iff split: option.splits y_parity.splits)

text \<open>
  C2, as the code has it. The tail is empty when \<open>r\<close> is undefined, or \<open>s\<close> is, or both
  \<open>v\<close> and \<open>yParity\<close> are. Otherwise it is \<open>[parity, trim r, trim s]\<close>, the parity being
  \<^verbatim>\<open>toHex(yParity)\<close> for a numeric \<open>yParity\<close>, else the placeholder \<^verbatim>\<open>'0x'\<close> for \<open>v\<close> equal
  to 0 or 27, else \<^verbatim>\<open>toHex(1)\<close>: for \<open>v = 1\<close> and for every other value of \<open>v\<close>, whatever
  its parity. The source of the four properties is the signature argument when there is
  one and the record otherwise.
\<close>

theorem signature_tail:
  assumes "sg = (case sig of None \<Rightarrow> signature.truncate tx | Some x \<Rightarrow> x)"
  shows "toYParitySignatureArray env tx sig = Inr xs \<longleftrightarrow>
     (if r sg = None \<or> s sg = None \<or> (v sg = None \<and> yParity sg = None) then xs = []
      else \<exists>r' s' p tr ts.
        r sg = Some r' \<and> s sg = Some s' \<and>
        (case yParity sg of
           Some (YNumber n) \<Rightarrow> toHex env (Some n) = Inr p
         | _ \<Rightarrow> if v sg = Some 0 \<or> v sg = Some 27 then p = ''0x''
                else toHex env (Some 1) = Inr p) \<and>
        trim env r' = Inr tr \<and> trim env s' = Inr ts \<and>
        xs = [Hex p, Hex tr, Hex ts])"
proof (cases "r sg = None \<or> s sg = None \<or> (v sg = None \<and> yParity sg = None)")
  case True
  then show ?thesis
    using assms unfolding toYParitySignatureArray_def Let_def
    by (auto split: option.splits)
next
  case False
  then obtain r' s' where rs: "r sg = Some r'" "s sg = Some s'"
    by auto
  from False have vy: "\<not> (v sg = None \<and> yParity sg = None)"
    by simp
  have "toYParitySignatureArray env tx sig =
      and_then (yParity_hex env sg) (\<lambda>y.
      and_then (external (trim env r')) (\<lambda>tr.
      and_then (external (trim env s')) (\<lambda>ts. Inr [y, Hex tr, Hex ts])))"
    using assms rs vy unfolding toYParitySignatureArray_def Let_def
    by (auto split: option.splits)
  then show ?thesis
    using False rs by (auto simp: Inr_iffs yParity_hex_Inr_iff)
qed

theorem signature_tail_witness:
  "toYParitySignatureArray ref empty_transaction (Some (sig_v 28)) =
     Inr [Hex ''0x01'', Hex ''0x01'', Hex ''0x02''] \<and>
   toYParitySignatureArray ref empty_transaction (Some (sig_v 27)) =
     Inr [Hex ''0x'', Hex ''0x01'', Hex ''0x02''] \<and>
   toYParitySignatureArray ref empty_transaction None = Inr []"
proof -
  have t: "trim ref ''0x0001'' = Inr ''0x01''" "trim ref ''0x02'' = Inr ''0x02''"
    "toHex ref (Some 1) = Inr ''0x01''"
    by code_simp+
  have "toYParitySignatureArray ref empty_transaction (Some (sig_v 28)) =
      Inr [Hex ''0x01'', Hex ''0x01'', Hex ''0x02'']"
    using signature_tail
      [where env = ref and tx = empty_transaction and sig = "Some (sig_v 28)"
         and sg = "sig_v 28" and xs = "[Hex ''0x01'', Hex ''0x01'', Hex ''0x02'']"] t
    by (simp add: sig_v_def)
  moreover have "toYParitySignatureArray ref empty_transaction (Some (sig_v 27)) =
      Inr [Hex ''0x'', Hex ''0x01'', Hex ''0x02'']"
    using signature_tail
      [where env = ref and tx = empty_transaction and sig = "Some (sig_v 27)"
         and sg = "sig_v 27" and xs = "[Hex ''0x'', Hex ''0x01'', Hex ''0x02'']"] t
    by (simp add: sig_v_def)
  moreover have "toYParitySignatureArray ref empty_transaction None = Inr []"
    using signature_tail
      [where env = ref and tx = empty_transaction and sig = None
         and sg = "signature.truncate empty_transaction" and xs = "[]"]
    by (simp add: signature.truncate_def empty_transaction_def)
  ultimately show ?thesis by simp
qed

text \<open>
  The recovery values 36 and 37 differ in parity, and both are encoded as \<^verbatim>\<open>toHex(1)\<close>:
  no value from 35 on is encoded as the placeholder \<^verbatim>\<open>'0x'\<close>.
\<close>

theorem signature_tail_parity_counterexample:
  "toYParitySignatureArray ref empty_transaction (Some (sig_v 36)) =
     Inr [Hex ''0x01'', Hex ''0x01'', Hex ''0x02''] \<and>
   toYParitySignatureArray ref empty_transaction (Some (sig_v 37)) =
     Inr [Hex ''0x01'', Hex ''0x01'', Hex ''0x02''] \<and>
   toYParitySignatureArray ref empty_transaction (Some (sig_v 36)) \<noteq>
     Inr [Hex ''0x'', Hex ''0x01'', Hex ''0x02''] \<and>
   toYParitySignatureArray ref empty_transaction (Some (sig_v 37)) \<noteq>
     Inr [Hex ''0x'', Hex ''0x01'', Hex ''0x02'']"
  by code_simp

section \<open>The invalid recovery value error\<close>

lemma legacy_v_Inl_iff:
  "legacy_v cid sg = Inl e \<longleftrightarrow>
     (case v sg of
        None \<Rightarrow> e = (if cid > 0 then TypeError else InvalidLegacyVError None)
      | Some sv \<Rightarrow>
          \<not> cid > 0 \<and> sv < 35 \<and> sv \<noteq> 27 \<and> sv \<noteq> 28 \<and> e = InvalidLegacyVError (Some sv))"
  unfolding legacy_v_def Let_def
  by (auto split: option.splits)

lemma legacy_base_Inl:
  "array_literal
     [toHexOrEmpty env (nonce tx), toHexOrEmpty env (gasPrice tx), toHexOrEmpty env (gas tx),
      orEmpty (to tx), toHexOrEmpty env (value tx), orEmpty (data tx)] = Inl e
   \<Longrightarrow> \<exists>x'. e = External x'"
  by (auto simp: orEmpty_eq dest!: array_literal_Inl dest: toHexOrEmpty_Inl)

lemma serializedTransactionLegacy_invalid_v_iff:
  fixes env :: "'e collaborators"
  shows "serializedTransactionLegacy env tx sig = Inl (InvalidLegacyVError x) \<longleftrightarrow>
     (\<exists>base sg.
        array_literal
          [toHexOrEmpty env (nonce tx), toHexOrEmpty env (gasPrice tx),
           toHexOrEmpty env (gas tx), orEmpty (to tx), toHexOrEmpty env (value tx),
           orEmpty (data tx)] = Inr base \<and>
        sig = Some sg \<and>
        (legacy_v (case chainId tx of None \<Rightarrow> 0 | Some c \<Rightarrow> c) sg :: 'e error + int) =
          Inl (InvalidLegacyVError x))"
  unfolding serializedTransactionLegacy_def Let_def
  by (cases sig)
     (auto simp: and_then_Inl_iff dest: legacy_base_Inl toHexField_Inl [OF sym])

lemma serializeTransactionLegacy_invalid_v_iff:
  "serializeTransactionLegacy env tx sig = Inl (InvalidLegacyVError x) \<longleftrightarrow>
     assertTransactionLegacy env tx = None \<and>
     serializedTransactionLegacy env tx sig = Inl (InvalidLegacyVError x)"
  unfolding serializeTransactionLegacy_def
  by (auto simp: and_then_Inl_iff external_Inl_iff split: option.splits)

text \<open>
  C3. On a record that passes the legacy assertion and whose base fields convert, with a
  signature that has a recovery value \<open>sv\<close> and a chain id that is not negative, the
  legacy encoder throws \<open>InvalidLegacyVError\<close> exactly when the chain id is absent or 0,
  \<open>sv < 35\<close> and \<open>sv\<close> is neither 27 nor 28, and the error carries \<open>sv\<close>. Without
  conditions: the error comes from nowhere else (not without a signature, not from a
  typed encoder, and from \<^verbatim>\<open>serializeTransaction\<close> exactly when the inferred type is
  none of the three typed ones and the legacy encoder throws it), each
  time it is thrown the assertion has passed, a signature was supplied, the chain id is
  absent or not positive and the value carried is \<^verbatim>\<open>signature.v\<close>, below 35 and neither
  27 nor 28; and a call that throws returns no bytes.
\<close>

theorem invalid_legacy_v_error:
  fixes env :: "'e collaborators"
  shows
    "(\<forall>sg sv n p g l.
        assertTransactionLegacy env tx = None \<and>
        toHexOrEmpty env (nonce tx) = Inr n \<and> toHexOrEmpty env (gasPrice tx) = Inr p \<and>
        toHexOrEmpty env (gas tx) = Inr g \<and> toHexOrEmpty env (value tx) = Inr l \<and>
        v sg = Some sv \<and> (\<forall>c. chainId tx = Some c \<longrightarrow> 0 \<le> c) \<longrightarrow>
        (serializeTransactionLegacy env tx (Some sg) = Inl (InvalidLegacyVError x) \<longleftrightarrow>
           (chainId tx = None \<or> chainId tx = Some 0) \<and> sv < 35 \<and> sv \<noteq> 27 \<and> sv \<noteq> 28 \<and>
           x = Some sv)) \<and>
     (serializeTransactionLegacy env tx sig = Inl (InvalidLegacyVError x) \<longrightarrow>
        assertTransactionLegacy env tx = None \<and>
        (\<exists>sg. sig = Some sg \<and> x = v sg \<and>
           (chainId tx = None \<or> (\<exists>c. chainId tx = Some c \<and> c \<le> 0)) \<and>
           (\<forall>sv. v sg = Some sv \<longrightarrow> sv < 35 \<and> sv \<noteq> 27 \<and> sv \<noteq> 28))) \<and>
     serializeTransactionLegacy env tx None \<noteq> Inl (InvalidLegacyVError x) \<and>
     serializeTransactionEIP1559 env tx sig \<noteq> Inl (InvalidLegacyVError x) \<and>
     serializeTransactionEIP2930 env tx sig \<noteq> Inl (InvalidLegacyVError x) \<and>
     serializeTransactionEIP4844 env tx sig \<noteq> Inl (InvalidLegacyVError x) \<and>
     (serializeTransaction env tx sig = Inl (InvalidLegacyVError x) \<longleftrightarrow>
        (\<exists>t. getTransactionType env tx = Inr t \<and>
           t \<noteq> ''eip1559'' \<and> t \<noteq> ''eip2930'' \<and> t \<noteq> ''eip4844'') \<and>
        serializeTransactionLegacy env tx sig = Inl (InvalidLegacyVError x)) \<and>
     (\<forall>e. serializeTransaction env tx sig = Inl e \<longrightarrow>
        (\<forall>bytes. serializeTransaction env tx sig \<noteq> Inr bytes))"
proof (intro conjI allI impI)
  fix sg :: signature and sv n p g l
  assume h: "assertTransactionLegacy env tx = None \<and>
        toHexOrEmpty env (nonce tx) = Inr n \<and> toHexOrEmpty env (gasPrice tx) = Inr p \<and>
        toHexOrEmpty env (gas tx) = Inr g \<and> toHexOrEmpty env (value tx) = Inr l \<and>
        v sg = Some sv \<and> (\<forall>c. chainId tx = Some c \<longrightarrow> 0 \<le> c)"
  then have base: "\<exists>base. array_literal
          [toHexOrEmpty env (nonce tx), toHexOrEmpty env (gasPrice tx),
           toHexOrEmpty env (gas tx), orEmpty (to tx), toHexOrEmpty env (value tx),
           orEmpty (data tx)] = Inr base"
    by (simp add: Inr_iffs orEmpty_eq)
  from h have cid: "\<not> 0 < (case chainId tx of None \<Rightarrow> 0 | Some c \<Rightarrow> c) \<longleftrightarrow>
      chainId tx = None \<or> chainId tx = Some 0"
    by (auto split: option.splits)
  show "serializeTransactionLegacy env tx (Some sg) = Inl (InvalidLegacyVError x) \<longleftrightarrow>
      (chainId tx = None \<or> chainId tx = Some 0) \<and> sv < 35 \<and> sv \<noteq> 27 \<and> sv \<noteq> 28 \<and>
      x = Some sv"
    unfolding serializeTransactionLegacy_invalid_v_iff
      serializedTransactionLegacy_invalid_v_iff legacy_v_Inl_iff
    using h base cid by auto
next
  assume "serializeTransactionLegacy env tx sig = Inl (InvalidLegacyVError x)"
  then show "assertTransactionLegacy env tx = None"
    by (simp add: serializeTransactionLegacy_invalid_v_iff)
next
  assume "serializeTransactionLegacy env tx sig = Inl (InvalidLegacyVError x)"
  then obtain sg where sg: "sig = Some sg"
    "(legacy_v (case chainId tx of None \<Rightarrow> 0 | Some c \<Rightarrow> c) sg :: 'e error + int) =
       Inl (InvalidLegacyVError x)"
    unfolding serializeTransactionLegacy_invalid_v_iff
      serializedTransactionLegacy_invalid_v_iff by blast
  from sg(2) have "x = v sg \<and>
      (chainId tx = None \<or> (\<exists>c. chainId tx = Some c \<and> c \<le> 0)) \<and>
      (\<forall>sv. v sg = Some sv \<longrightarrow> sv < 35 \<and> sv \<noteq> 27 \<and> sv \<noteq> 28)"
    unfolding legacy_v_Inl_iff by (auto split: option.splits if_splits)
  with sg(1) show "\<exists>sg. sig = Some sg \<and> x = v sg \<and>
      (chainId tx = None \<or> (\<exists>c. chainId tx = Some c \<and> c \<le> 0)) \<and>
      (\<forall>sv. v sg = Some sv \<longrightarrow> sv < 35 \<and> sv \<noteq> 27 \<and> sv \<noteq> 28)"
    by blast
next
  show "serializeTransactionLegacy env tx None \<noteq> Inl (InvalidLegacyVError x)"
    unfolding serializeTransactionLegacy_invalid_v_iff
      serializedTransactionLegacy_invalid_v_iff by simp
next
  show "serializeTransactionEIP1559 env tx sig \<noteq> Inl (InvalidLegacyVError x)"
    using serializeTransactionEIP1559_Inl [of env tx sig "InvalidLegacyVError x"] by auto
next
  show "serializeTransactionEIP2930 env tx sig \<noteq> Inl (InvalidLegacyVError x)"
    using serializeTransactionEIP2930_Inl [of env tx sig "InvalidLegacyVError x"] by auto
next
  show "serializeTransactionEIP4844 env tx sig \<noteq> Inl (InvalidLegacyVError x)"
    using serializeTransactionEIP4844_Inl [of env tx sig "InvalidLegacyVError x"] by auto
next
  have typed: "serializeTransactionEIP1559 env tx sig \<noteq> Inl (InvalidLegacyVError x)"
    "serializeTransactionEIP2930 env tx sig \<noteq> Inl (InvalidLegacyVError x)"
    "serializeTransactionEIP4844 env tx sig \<noteq> Inl (InvalidLegacyVError x)"
    using serializeTransactionEIP1559_Inl [of env tx sig "InvalidLegacyVError x"]
      serializeTransactionEIP2930_Inl [of env tx sig "InvalidLegacyVError x"]
      serializeTransactionEIP4844_Inl [of env tx sig "InvalidLegacyVError x"]
    by auto
  show "serializeTransaction env tx sig = Inl (InvalidLegacyVError x) \<longleftrightarrow>
      (\<exists>t. getTransactionType env tx = Inr t \<and>
         t \<noteq> ''eip1559'' \<and> t \<noteq> ''eip2930'' \<and> t \<noteq> ''eip4844'') \<and>
      serializeTransactionLegacy env tx sig = Inl (InvalidLegacyVError x)"
    unfolding serializeTransaction_def using typed
    by (cases "getTransactionType env tx") (auto simp: and_then_def external_def)
next
  fix e bytes
  assume "serializeTransaction env tx sig = Inl e"
  then show "serializeTransaction env tx sig \<noteq> Inr bytes"
    by simp
qed

theorem invalid_legacy_v_error_witness:
  "serializeTransactionLegacy ref empty_transaction (Some (sig_v 29)) =
     Inl (InvalidLegacyVError (Some 29)) \<and>
   serializeTransactionLegacy ref empty_transaction (Some (sig_v 28)) \<noteq>
     Inl (InvalidLegacyVError (Some 28))"
proof -
  have pre: "assertTransactionLegacy ref empty_transaction = None"
    "toHexOrEmpty ref (nonce empty_transaction) = Inr (Hex ''0x'')"
    "toHexOrEmpty ref (gasPrice empty_transaction) = Inr (Hex ''0x'')"
    "toHexOrEmpty ref (gas empty_transaction) = Inr (Hex ''0x'')"
    "toHexOrEmpty ref (value empty_transaction) = Inr (Hex ''0x'')"
    "chainId empty_transaction = None"
    by code_simp+
  have "serializeTransactionLegacy ref empty_transaction (Some (sig_v 29)) =
      Inl (InvalidLegacyVError (Some 29))"
    using invalid_legacy_v_error
      [where env = ref and tx = empty_transaction and x = "Some 29", THEN conjunct1,
         rule_format, where sg = "sig_v 29" and sv = 29] pre
    by (simp add: sig_v_def)
  moreover have "serializeTransactionLegacy ref empty_transaction (Some (sig_v 28)) \<noteq>
      Inl (InvalidLegacyVError (Some 28))"
    using invalid_legacy_v_error
      [where env = ref and tx = empty_transaction and x = "Some 28", THEN conjunct1,
         rule_format, where sg = "sig_v 28" and sv = 28] pre
    by (simp add: sig_v_def)
  ultimately show ?thesis by simp
qed

section \<open>The typed encoders\<close>

lemma serializeTransactionEIP1559_Inr_iff:
  "serializeTransactionEIP1559 env tx sig = Inr out \<longleftrightarrow>
     assertTransactionEIP1559 env tx = None \<and>
     (\<exists>al c n p f g l tail fields body.
        serializeAccessList env (accessList tx) = Inr al \<and>
        toHex env (chainId tx) = Inr c \<and>
        toHexOrEmpty env (nonce tx) = Inr n \<and>
        toHexOrEmpty env (maxPriorityFeePerGas tx) = Inr p \<and>
        toHexOrEmpty env (maxFeePerGas tx) = Inr f \<and>
        toHexOrEmpty env (gas tx) = Inr g \<and>
        toHexOrEmpty env (value tx) = Inr l \<and>
        toYParitySignatureArray env tx sig = Inr tail \<and>
        fields =
          [Hex c, n, p, f, g,
           Hex (case to tx of None \<Rightarrow> ''0x'' | Some a \<Rightarrow> a),
           l,
           Hex (case data tx of None \<Rightarrow> ''0x'' | Some d \<Rightarrow> d),
           al] @ tail \<and>
        toRlp env (Items fields) = Inr body \<and>
        concatHex env [''0x02'', body] = Inr out)"
  unfolding serializeTransactionEIP1559_def serializedTransactionEIP1559_def
  by (cases "assertTransactionEIP1559 env tx")
     (auto simp: Inr_iffs orEmpty_eq fieldList_def)


text \<open>
  C5. The EIP-1559 encoder validates first: an error of the assertion is the result,
  whatever the other functions would do. When every step succeeds, the result is
  \<^verbatim>\<open>concatHex(['0x02', toRlp(fields)])\<close>, the fields being, in this order, chain id, nonce
  or empty, max priority fee or empty, max fee or empty, gas limit or empty, recipient
  or empty, value or empty, data or empty, the serialized access list, and the signature
  tail; and every successful result has this form.
\<close>

theorem serializeTransactionEIP1559_fields:
  "(\<forall>e. assertTransactionEIP1559 env tx = Some e \<longrightarrow>
        serializeTransactionEIP1559 env tx sig = Inl (External e)) \<and>
   (\<forall>al c n p f g l tail fields body.
        assertTransactionEIP1559 env tx = None \<and>
        serializeAccessList env (accessList tx) = Inr al \<and>
        toHex env (chainId tx) = Inr c \<and>
        toHexOrEmpty env (nonce tx) = Inr n \<and>
        toHexOrEmpty env (maxPriorityFeePerGas tx) = Inr p \<and>
        toHexOrEmpty env (maxFeePerGas tx) = Inr f \<and>
        toHexOrEmpty env (gas tx) = Inr g \<and>
        toHexOrEmpty env (value tx) = Inr l \<and>
        toYParitySignatureArray env tx sig = Inr tail \<and>
        fields =
          [Hex c, n, p, f, g,
           Hex (case to tx of None \<Rightarrow> ''0x'' | Some a \<Rightarrow> a),
           l,
           Hex (case data tx of None \<Rightarrow> ''0x'' | Some d \<Rightarrow> d),
           al] @ tail \<and>
        toRlp env (Items fields) = Inr body \<and>
        concatHex env [''0x02'', body] = Inr out \<longrightarrow>
        serializeTransactionEIP1559 env tx sig = Inr out) \<and>
   (serializeTransactionEIP1559 env tx sig = Inr out \<longrightarrow>
      assertTransactionEIP1559 env tx = None \<and>
      (\<exists>al c n p f g l tail fields body.
        serializeAccessList env (accessList tx) = Inr al \<and>
        toHex env (chainId tx) = Inr c \<and>
        toHexOrEmpty env (nonce tx) = Inr n \<and>
        toHexOrEmpty env (maxPriorityFeePerGas tx) = Inr p \<and>
        toHexOrEmpty env (maxFeePerGas tx) = Inr f \<and>
        toHexOrEmpty env (gas tx) = Inr g \<and>
        toHexOrEmpty env (value tx) = Inr l \<and>
        toYParitySignatureArray env tx sig = Inr tail \<and>
        fields =
          [Hex c, n, p, f, g,
           Hex (case to tx of None \<Rightarrow> ''0x'' | Some a \<Rightarrow> a),
           l,
           Hex (case data tx of None \<Rightarrow> ''0x'' | Some d \<Rightarrow> d),
           al] @ tail \<and>
        toRlp env (Items fields) = Inr body \<and>
        concatHex env [''0x02'', body] = Inr out))"
proof (intro conjI allI impI)
  fix e
  assume "assertTransactionEIP1559 env tx = Some e"
  then show "serializeTransactionEIP1559 env tx sig = Inl (External e)"
    by (simp add: serializeTransactionEIP1559_def)
next
  fix al c n p f g l tail fields body
  assume "assertTransactionEIP1559 env tx = None \<and>
        serializeAccessList env (accessList tx) = Inr al \<and>
        toHex env (chainId tx) = Inr c \<and>
        toHexOrEmpty env (nonce tx) = Inr n \<and>
        toHexOrEmpty env (maxPriorityFeePerGas tx) = Inr p \<and>
        toHexOrEmpty env (maxFeePerGas tx) = Inr f \<and>
        toHexOrEmpty env (gas tx) = Inr g \<and>
        toHexOrEmpty env (value tx) = Inr l \<and>
        toYParitySignatureArray env tx sig = Inr tail \<and>
        fields =
          [Hex c, n, p, f, g,
           Hex (case to tx of None \<Rightarrow> ''0x'' | Some a \<Rightarrow> a),
           l,
           Hex (case data tx of None \<Rightarrow> ''0x'' | Some d \<Rightarrow> d),
           al] @ tail \<and>
        toRlp env (Items fields) = Inr body \<and>
        concatHex env [''0x02'', body] = Inr out"
  then show "serializeTransactionEIP1559 env tx sig = Inr out"
    unfolding serializeTransactionEIP1559_Inr_iff by blast
next
  assume "serializeTransactionEIP1559 env tx sig = Inr out"
  then show "assertTransactionEIP1559 env tx = None"
    unfolding serializeTransactionEIP1559_Inr_iff by blast
next
  assume "serializeTransactionEIP1559 env tx sig = Inr out"
  then show "\<exists>al c n p f g l tail fields body.
        serializeAccessList env (accessList tx) = Inr al \<and>
        toHex env (chainId tx) = Inr c \<and>
        toHexOrEmpty env (nonce tx) = Inr n \<and>
        toHexOrEmpty env (maxPriorityFeePerGas tx) = Inr p \<and>
        toHexOrEmpty env (maxFeePerGas tx) = Inr f \<and>
        toHexOrEmpty env (gas tx) = Inr g \<and>
        toHexOrEmpty env (value tx) = Inr l \<and>
        toYParitySignatureArray env tx sig = Inr tail \<and>
        fields =
          [Hex c, n, p, f, g,
           Hex (case to tx of None \<Rightarrow> ''0x'' | Some a \<Rightarrow> a),
           l,
           Hex (case data tx of None \<Rightarrow> ''0x'' | Some d \<Rightarrow> d),
           al] @ tail \<and>
        toRlp env (Items fields) = Inr body \<and>
        concatHex env [''0x02'', body] = Inr out"
    unfolding serializeTransactionEIP1559_Inr_iff by blast
qed


theorem serializeTransactionEIP1559_fields_witness:
  "serializeTransactionEIP1559 ref tx1559 (Some (sig_v 28)) =
     Inr ''0x02f30109843b9aca008504a817c800825208943535353535353535353535353535353535353535880de0b6b3a764000080c0010102'' \<and>
   serializeTransactionEIP1559 ref empty_transaction (Some (sig_v 28)) =
     Inl (External ValidationError)"
proof -
  have steps:
    "assertTransactionEIP1559 ref tx1559 = None"
    "serializeAccessList ref (accessList tx1559) = Inr (Items [])"
    "toHex ref (chainId tx1559) = Inr ''0x01''"
    "toHexOrEmpty ref (nonce tx1559) = Inr (Hex ''0x09'')"
    "toHexOrEmpty ref (maxPriorityFeePerGas tx1559) = Inr (Hex ''0x3b9aca00'')"
    "toHexOrEmpty ref (maxFeePerGas tx1559) = Inr (Hex ''0x04a817c800'')"
    "toHexOrEmpty ref (gas tx1559) = Inr (Hex ''0x5208'')"
    "toHexOrEmpty ref (value tx1559) = Inr (Hex ''0x0de0b6b3a7640000'')"
    "toYParitySignatureArray ref tx1559 (Some (sig_v 28)) =
       Inr [Hex ''0x01'', Hex ''0x01'', Hex ''0x02'']"
    "to tx1559 = Some ''0x3535353535353535353535353535353535353535''"
    "data tx1559 = None"
    "toRlp ref
       (Items [Hex ''0x01'', Hex ''0x09'', Hex ''0x3b9aca00'', Hex ''0x04a817c800'',
          Hex ''0x5208'', Hex ''0x3535353535353535353535353535353535353535'',
          Hex ''0x0de0b6b3a7640000'', Hex ''0x'', Items [], Hex ''0x01'', Hex ''0x01'',
          Hex ''0x02'']) =
       Inr ''0xf30109843b9aca008504a817c800825208943535353535353535353535353535353535353535880de0b6b3a764000080c0010102''"
    "concatHex ref
       [''0x02'', ''0xf30109843b9aca008504a817c800825208943535353535353535353535353535353535353535880de0b6b3a764000080c0010102''] =
       Inr ''0x02f30109843b9aca008504a817c800825208943535353535353535353535353535353535353535880de0b6b3a764000080c0010102''"
    by code_simp+
  have "serializeTransactionEIP1559 ref tx1559 (Some (sig_v 28)) =
      Inr ''0x02f30109843b9aca008504a817c800825208943535353535353535353535353535353535353535880de0b6b3a764000080c0010102''"
    using serializeTransactionEIP1559_fields
      [where env = ref and tx = tx1559 and sig = "Some (sig_v 28)", THEN conjunct2,
         THEN conjunct1, rule_format,
         where al = "Items []" and c = "''0x01''" and n = "Hex ''0x09''"
           and p = "Hex ''0x3b9aca00''" and f = "Hex ''0x04a817c800''"
           and g = "Hex ''0x5208''" and l = "Hex ''0x0de0b6b3a7640000''"
           and tail = "[Hex ''0x01'', Hex ''0x01'', Hex ''0x02'']"
           and fields = "[Hex ''0x01'', Hex ''0x09'', Hex ''0x3b9aca00'', Hex ''0x04a817c800'',
             Hex ''0x5208'', Hex ''0x3535353535353535353535353535353535353535'',
             Hex ''0x0de0b6b3a7640000'', Hex ''0x'', Items [], Hex ''0x01'', Hex ''0x01'',
             Hex ''0x02'']"] steps
    by simp
  moreover have "assertTransactionEIP1559 ref empty_transaction = Some ValidationError"
    by code_simp
  then have "serializeTransactionEIP1559 ref empty_transaction (Some (sig_v 28)) =
      Inl (External ValidationError)"
    using serializeTransactionEIP1559_fields
      [where env = ref and tx = empty_transaction and sig = "Some (sig_v 28)", THEN conjunct1]
    by simp
  ultimately show ?thesis by simp
qed

lemma serializeTransactionEIP2930_Inr_iff:
  "serializeTransactionEIP2930 env tx sig = Inr out \<longleftrightarrow>
     assertTransactionEIP2930 env tx = None \<and>
     (\<exists>al c n p g l tail fields body.
        serializeAccessList env (accessList tx) = Inr al \<and>
        toHex env (chainId tx) = Inr c \<and>
        toHexOrEmpty env (nonce tx) = Inr n \<and>
        toHexOrEmpty env (gasPrice tx) = Inr p \<and>
        toHexOrEmpty env (gas tx) = Inr g \<and>
        toHexOrEmpty env (value tx) = Inr l \<and>
        toYParitySignatureArray env tx sig = Inr tail \<and>
        fields =
          [Hex c, n, p, g, Hex (case to tx of None \<Rightarrow> ''0x'' | Some a \<Rightarrow> a),
           l,
           Hex (case data tx of None \<Rightarrow> ''0x'' | Some d \<Rightarrow> d),
           al] @ tail \<and>
        toRlp env (Items fields) = Inr body \<and>
        concatHex env [''0x01'', body] = Inr out)"
  unfolding serializeTransactionEIP2930_def serializedTransactionEIP2930_def
  by (cases "assertTransactionEIP2930 env tx")
     (auto simp: Inr_iffs orEmpty_eq fieldList_def)


text \<open>
  C6. The EIP-2930 encoder validates first: an error of the assertion is the result,
  whatever the other functions would do. When every step succeeds, the result is
  \<^verbatim>\<open>concatHex(['0x01', toRlp(fields)])\<close>, the fields being, in this order, chain id, nonce
  or empty, gas price or empty, gas limit or empty, recipient or empty, value or empty,
  data or empty, the serialized access list, and the signature tail, which may be empty;
  and every successful result has this form.
\<close>

theorem serializeTransactionEIP2930_fields:
  "(\<forall>e. assertTransactionEIP2930 env tx = Some e \<longrightarrow>
        serializeTransactionEIP2930 env tx sig = Inl (External e)) \<and>
   (\<forall>al c n p g l tail fields body.
        assertTransactionEIP2930 env tx = None \<and>
        serializeAccessList env (accessList tx) = Inr al \<and>
        toHex env (chainId tx) = Inr c \<and>
        toHexOrEmpty env (nonce tx) = Inr n \<and>
        toHexOrEmpty env (gasPrice tx) = Inr p \<and>
        toHexOrEmpty env (gas tx) = Inr g \<and>
        toHexOrEmpty env (value tx) = Inr l \<and>
        toYParitySignatureArray env tx sig = Inr tail \<and>
        fields =
          [Hex c, n, p, g, Hex (case to tx of None \<Rightarrow> ''0x'' | Some a \<Rightarrow> a),
           l,
           Hex (case data tx of None \<Rightarrow> ''0x'' | Some d \<Rightarrow> d),
           al] @ tail \<and>
        toRlp env (Items fields) = Inr body \<and>
        concatHex env [''0x01'', body] = Inr out \<longrightarrow>
        serializeTransactionEIP2930 env tx sig = Inr out) \<and>
   (serializeTransactionEIP2930 env tx sig = Inr out \<longrightarrow>
      assertTransactionEIP2930 env tx = None \<and>
      (\<exists>al c n p g l tail fields body.
        serializeAccessList env (accessList tx) = Inr al \<and>
        toHex env (chainId tx) = Inr c \<and>
        toHexOrEmpty env (nonce tx) = Inr n \<and>
        toHexOrEmpty env (gasPrice tx) = Inr p \<and>
        toHexOrEmpty env (gas tx) = Inr g \<and>
        toHexOrEmpty env (value tx) = Inr l \<and>
        toYParitySignatureArray env tx sig = Inr tail \<and>
        fields =
          [Hex c, n, p, g, Hex (case to tx of None \<Rightarrow> ''0x'' | Some a \<Rightarrow> a),
           l,
           Hex (case data tx of None \<Rightarrow> ''0x'' | Some d \<Rightarrow> d),
           al] @ tail \<and>
        toRlp env (Items fields) = Inr body \<and>
        concatHex env [''0x01'', body] = Inr out))"
proof (intro conjI allI impI)
  fix e
  assume "assertTransactionEIP2930 env tx = Some e"
  then show "serializeTransactionEIP2930 env tx sig = Inl (External e)"
    by (simp add: serializeTransactionEIP2930_def)
next
  fix al c n p g l tail fields body
  assume "assertTransactionEIP2930 env tx = None \<and>
        serializeAccessList env (accessList tx) = Inr al \<and>
        toHex env (chainId tx) = Inr c \<and>
        toHexOrEmpty env (nonce tx) = Inr n \<and>
        toHexOrEmpty env (gasPrice tx) = Inr p \<and>
        toHexOrEmpty env (gas tx) = Inr g \<and>
        toHexOrEmpty env (value tx) = Inr l \<and>
        toYParitySignatureArray env tx sig = Inr tail \<and>
        fields =
          [Hex c, n, p, g, Hex (case to tx of None \<Rightarrow> ''0x'' | Some a \<Rightarrow> a),
           l,
           Hex (case data tx of None \<Rightarrow> ''0x'' | Some d \<Rightarrow> d),
           al] @ tail \<and>
        toRlp env (Items fields) = Inr body \<and>
        concatHex env [''0x01'', body] = Inr out"
  then show "serializeTransactionEIP2930 env tx sig = Inr out"
    unfolding serializeTransactionEIP2930_Inr_iff by blast
next
  assume "serializeTransactionEIP2930 env tx sig = Inr out"
  then show "assertTransactionEIP2930 env tx = None"
    unfolding serializeTransactionEIP2930_Inr_iff by blast
next
  assume "serializeTransactionEIP2930 env tx sig = Inr out"
  then show "\<exists>al c n p g l tail fields body.
        serializeAccessList env (accessList tx) = Inr al \<and>
        toHex env (chainId tx) = Inr c \<and>
        toHexOrEmpty env (nonce tx) = Inr n \<and>
        toHexOrEmpty env (gasPrice tx) = Inr p \<and>
        toHexOrEmpty env (gas tx) = Inr g \<and>
        toHexOrEmpty env (value tx) = Inr l \<and>
        toYParitySignatureArray env tx sig = Inr tail \<and>
        fields =
          [Hex c, n, p, g, Hex (case to tx of None \<Rightarrow> ''0x'' | Some a \<Rightarrow> a),
           l,
           Hex (case data tx of None \<Rightarrow> ''0x'' | Some d \<Rightarrow> d),
           al] @ tail \<and>
        toRlp env (Items fields) = Inr body \<and>
        concatHex env [''0x01'', body] = Inr out"
    unfolding serializeTransactionEIP2930_Inr_iff by blast
qed


theorem serializeTransactionEIP2930_fields_witness:
  "serializeTransactionEIP2930 ref tx2930 None =
     Inr ''0x01f84301098504a817c800825208943535353535353535353535353535353535353535880de0b6b3a764000080d8d7943535353535353535353535353535353535353535c101'' \<and>
   serializeTransactionEIP2930 ref empty_transaction None = Inl (External ValidationError)"
proof -
  have steps:
    "assertTransactionEIP2930 ref tx2930 = None"
    "serializeAccessList ref (accessList tx2930) =
       Inr (Items [Items [Hex ''0x3535353535353535353535353535353535353535'', Items [Hex ''0x01'']]])"
    "toHex ref (chainId tx2930) = Inr ''0x01''"
    "toHexOrEmpty ref (nonce tx2930) = Inr (Hex ''0x09'')"
    "toHexOrEmpty ref (gasPrice tx2930) = Inr (Hex ''0x04a817c800'')"
    "toHexOrEmpty ref (gas tx2930) = Inr (Hex ''0x5208'')"
    "toHexOrEmpty ref (value tx2930) = Inr (Hex ''0x0de0b6b3a7640000'')"
    "toYParitySignatureArray ref tx2930 None = Inr []"
    "to tx2930 = Some ''0x3535353535353535353535353535353535353535''"
    "data tx2930 = None"
    "toRlp ref
       (Items [Hex ''0x01'', Hex ''0x09'', Hex ''0x04a817c800'', Hex ''0x5208'',
          Hex ''0x3535353535353535353535353535353535353535'',
          Hex ''0x0de0b6b3a7640000'', Hex ''0x'',
          Items [Items [Hex ''0x3535353535353535353535353535353535353535'', Items [Hex ''0x01'']]]]) =
       Inr ''0xf84301098504a817c800825208943535353535353535353535353535353535353535880de0b6b3a764000080d8d7943535353535353535353535353535353535353535c101''"
    "concatHex ref
       [''0x01'', ''0xf84301098504a817c800825208943535353535353535353535353535353535353535880de0b6b3a764000080d8d7943535353535353535353535353535353535353535c101''] =
       Inr ''0x01f84301098504a817c800825208943535353535353535353535353535353535353535880de0b6b3a764000080d8d7943535353535353535353535353535353535353535c101''"
    by code_simp+
  have "serializeTransactionEIP2930 ref tx2930 None =
      Inr ''0x01f84301098504a817c800825208943535353535353535353535353535353535353535880de0b6b3a764000080d8d7943535353535353535353535353535353535353535c101''"
    using serializeTransactionEIP2930_fields
      [where env = ref and tx = tx2930 and sig = None, THEN conjunct2,
         THEN conjunct1, rule_format,
         where al = "Items [Items [Hex ''0x3535353535353535353535353535353535353535'', Items [Hex ''0x01'']]]"
           and c = "''0x01''" and n = "Hex ''0x09''" and p = "Hex ''0x04a817c800''"
           and g = "Hex ''0x5208''" and l = "Hex ''0x0de0b6b3a7640000''" and tail = "[]"
           and fields = "[Hex ''0x01'', Hex ''0x09'', Hex ''0x04a817c800'', Hex ''0x5208'',
          Hex ''0x3535353535353535353535353535353535353535'',
          Hex ''0x0de0b6b3a7640000'', Hex ''0x'',
          Items [Items [Hex ''0x3535353535353535353535353535353535353535'', Items [Hex ''0x01'']]]]"] steps
    by simp
  moreover have "assertTransactionEIP2930 ref empty_transaction = Some ValidationError"
    by code_simp
  then have "serializeTransactionEIP2930 ref empty_transaction None =
      Inl (External ValidationError)"
    using serializeTransactionEIP2930_fields
      [where env = ref and tx = empty_transaction and sig = None, THEN conjunct1]
    by simp
  ultimately show ?thesis by simp
qed

lemma serializedTransactionEIP4844_Inr_iff:
  "serializedTransactionEIP4844 env tx sig al = Inr fs \<longleftrightarrow>
     (\<exists>c n p f g l b tail.
        toHex env (chainId tx) = Inr c \<and>
        toHexOrEmpty env (nonce tx) = Inr n \<and>
        toHexOrEmpty env (maxPriorityFeePerGas tx) = Inr p \<and>
        toHexOrEmpty env (maxFeePerGas tx) = Inr f \<and>
        toHexOrEmpty env (gas tx) = Inr g \<and>
        toHexOrEmpty env (value tx) = Inr l \<and>
        toHexOrEmpty env (maxFeePerBlobGas tx) = Inr b \<and>
        toYParitySignatureArray env tx sig = Inr tail \<and>
        fs =
          [Hex c, n, p, f, g,
           Hex (case to tx of None \<Rightarrow> ''0x'' | Some a \<Rightarrow> a),
           l,
           Hex (case data tx of None \<Rightarrow> ''0x'' | Some d \<Rightarrow> d),
           al,
           b,
           (case blobVersionedHashes tx of None \<Rightarrow> Undefined | Some hs \<Rightarrow> Items (map Hex hs))] @ tail)"
  unfolding serializedTransactionEIP4844_def
  by (auto simp: Inr_iffs orEmpty_eq fieldList_def)

lemma serializeTransactionEIP4844_Inr_iff:
  "serializeTransactionEIP4844 env tx sig = Inr out \<longleftrightarrow>
     assertTransactionEIP4844 env tx = None \<and>
     (\<exists>al c n p f g l b tail fields body.
        serializeAccessList env (accessList tx) = Inr al \<and>
        toHex env (chainId tx) = Inr c \<and>
        toHexOrEmpty env (nonce tx) = Inr n \<and>
        toHexOrEmpty env (maxPriorityFeePerGas tx) = Inr p \<and>
        toHexOrEmpty env (maxFeePerGas tx) = Inr f \<and>
        toHexOrEmpty env (gas tx) = Inr g \<and>
        toHexOrEmpty env (value tx) = Inr l \<and>
        toHexOrEmpty env (maxFeePerBlobGas tx) = Inr b \<and>
        toYParitySignatureArray env tx sig = Inr tail \<and>
        fields =
          [Hex c, n, p, f, g,
           Hex (case to tx of None \<Rightarrow> ''0x'' | Some a \<Rightarrow> a),
           l,
           Hex (case data tx of None \<Rightarrow> ''0x'' | Some d \<Rightarrow> d),
           al,
           b,
           (case blobVersionedHashes tx of None \<Rightarrow> Undefined | Some hs \<Rightarrow> Items (map Hex hs))] @ tail \<and>
        toRlp env
          (case blobs tx of
             None \<Rightarrow> Items fields
           | Some bs \<Rightarrow>
               Items [Items fields, Items (map Hex bs),
                 (case kzgCommitments tx of None \<Rightarrow> Undefined | Some ks \<Rightarrow> Items (map Hex ks)),
                 (case kzgProofs tx of None \<Rightarrow> Undefined | Some ks \<Rightarrow> Items (map Hex ks))]) =
          Inr body \<and>
        concatHex env [''0x03'', body] = Inr out)"
proof (cases "assertTransactionEIP4844 env tx")
  case (Some e)
  then show ?thesis by (simp add: serializeTransactionEIP4844_def)
next
  case None
  then have "serializeTransactionEIP4844 env tx sig = Inr out \<longleftrightarrow>
      (\<exists>al fields body.
        serializeAccessList env (accessList tx) = Inr al \<and>
        serializedTransactionEIP4844 env tx sig al = Inr fields \<and>
        toRlp env
          (case blobs tx of
             None \<Rightarrow> Items fields
           | Some bs \<Rightarrow>
               Items [Items fields, Items (map Hex bs),
                 (case kzgCommitments tx of None \<Rightarrow> Undefined | Some ks \<Rightarrow> Items (map Hex ks)),
                 (case kzgProofs tx of None \<Rightarrow> Undefined | Some ks \<Rightarrow> Items (map Hex ks))]) =
          Inr body \<and>
        concatHex env [''0x03'', body] = Inr out)"
    unfolding serializeTransactionEIP4844_def fieldList_def
    by (simp add: and_then_Inr_iff external_Inr_iff)
  also have "\<dots> \<longleftrightarrow> (\<exists>al c n p f g l b tail fields body.
        serializeAccessList env (accessList tx) = Inr al \<and>
        toHex env (chainId tx) = Inr c \<and>
        toHexOrEmpty env (nonce tx) = Inr n \<and>
        toHexOrEmpty env (maxPriorityFeePerGas tx) = Inr p \<and>
        toHexOrEmpty env (maxFeePerGas tx) = Inr f \<and>
        toHexOrEmpty env (gas tx) = Inr g \<and>
        toHexOrEmpty env (value tx) = Inr l \<and>
        toHexOrEmpty env (maxFeePerBlobGas tx) = Inr b \<and>
        toYParitySignatureArray env tx sig = Inr tail \<and>
        fields =
          [Hex c, n, p, f, g,
           Hex (case to tx of None \<Rightarrow> ''0x'' | Some a \<Rightarrow> a),
           l,
           Hex (case data tx of None \<Rightarrow> ''0x'' | Some d \<Rightarrow> d),
           al,
           b,
           (case blobVersionedHashes tx of None \<Rightarrow> Undefined | Some hs \<Rightarrow> Items (map Hex hs))] @ tail \<and>
        toRlp env
          (case blobs tx of
             None \<Rightarrow> Items fields
           | Some bs \<Rightarrow>
               Items [Items fields, Items (map Hex bs),
                 (case kzgCommitments tx of None \<Rightarrow> Undefined | Some ks \<Rightarrow> Items (map Hex ks)),
                 (case kzgProofs tx of None \<Rightarrow> Undefined | Some ks \<Rightarrow> Items (map Hex ks))]) =
          Inr body \<and>
        concatHex env [''0x03'', body] = Inr out)"
    unfolding serializedTransactionEIP4844_Inr_iff by blast
  finally show ?thesis using None by simp
qed

text \<open>
  C4. The EIP-4844 encoder validates first. When every step succeeds, the fields are, in
  this order, chain id, nonce or empty, max priority fee or empty, max fee or empty, gas
  limit or empty, recipient or empty, value or empty, data or empty, the serialized
  access list, max fee per blob gas or empty, the blob versioned hashes as a nested
  list, and the signature tail. With \<^verbatim>\<open>blobs\<close> present what is encoded is the list of
  four elements \<open>[fields, blobs, kzgCommitments, kzgProofs]\<close>, otherwise the fields alone;
  in both cases the result is \<^verbatim>\<open>concatHex(['0x03', toRlp(...)])\<close>, and every successful
  result has this form.
\<close>

theorem serializeTransactionEIP4844_fields:
  "(\<forall>e. assertTransactionEIP4844 env tx = Some e \<longrightarrow>
        serializeTransactionEIP4844 env tx sig = Inl (External e)) \<and>
   (\<forall>al c n p f g l b tail fields body.
        assertTransactionEIP4844 env tx = None \<and>
        serializeAccessList env (accessList tx) = Inr al \<and>
        toHex env (chainId tx) = Inr c \<and>
        toHexOrEmpty env (nonce tx) = Inr n \<and>
        toHexOrEmpty env (maxPriorityFeePerGas tx) = Inr p \<and>
        toHexOrEmpty env (maxFeePerGas tx) = Inr f \<and>
        toHexOrEmpty env (gas tx) = Inr g \<and>
        toHexOrEmpty env (value tx) = Inr l \<and>
        toHexOrEmpty env (maxFeePerBlobGas tx) = Inr b \<and>
        toYParitySignatureArray env tx sig = Inr tail \<and>
        fields =
          [Hex c, n, p, f, g,
           Hex (case to tx of None \<Rightarrow> ''0x'' | Some a \<Rightarrow> a),
           l,
           Hex (case data tx of None \<Rightarrow> ''0x'' | Some d \<Rightarrow> d),
           al,
           b,
           (case blobVersionedHashes tx of None \<Rightarrow> Undefined | Some hs \<Rightarrow> Items (map Hex hs))] @ tail \<and>
        toRlp env
          (case blobs tx of
             None \<Rightarrow> Items fields
           | Some bs \<Rightarrow>
               Items [Items fields, Items (map Hex bs),
                 (case kzgCommitments tx of None \<Rightarrow> Undefined | Some ks \<Rightarrow> Items (map Hex ks)),
                 (case kzgProofs tx of None \<Rightarrow> Undefined | Some ks \<Rightarrow> Items (map Hex ks))]) =
          Inr body \<and>
        concatHex env [''0x03'', body] = Inr out \<longrightarrow>
        serializeTransactionEIP4844 env tx sig = Inr out) \<and>
   (serializeTransactionEIP4844 env tx sig = Inr out \<longrightarrow>
      assertTransactionEIP4844 env tx = None \<and>
      (\<exists>al c n p f g l b tail fields body.
        serializeAccessList env (accessList tx) = Inr al \<and>
        toHex env (chainId tx) = Inr c \<and>
        toHexOrEmpty env (nonce tx) = Inr n \<and>
        toHexOrEmpty env (maxPriorityFeePerGas tx) = Inr p \<and>
        toHexOrEmpty env (maxFeePerGas tx) = Inr f \<and>
        toHexOrEmpty env (gas tx) = Inr g \<and>
        toHexOrEmpty env (value tx) = Inr l \<and>
        toHexOrEmpty env (maxFeePerBlobGas tx) = Inr b \<and>
        toYParitySignatureArray env tx sig = Inr tail \<and>
        fields =
          [Hex c, n, p, f, g,
           Hex (case to tx of None \<Rightarrow> ''0x'' | Some a \<Rightarrow> a),
           l,
           Hex (case data tx of None \<Rightarrow> ''0x'' | Some d \<Rightarrow> d),
           al,
           b,
           (case blobVersionedHashes tx of None \<Rightarrow> Undefined | Some hs \<Rightarrow> Items (map Hex hs))] @ tail \<and>
        toRlp env
          (case blobs tx of
             None \<Rightarrow> Items fields
           | Some bs \<Rightarrow>
               Items [Items fields, Items (map Hex bs),
                 (case kzgCommitments tx of None \<Rightarrow> Undefined | Some ks \<Rightarrow> Items (map Hex ks)),
                 (case kzgProofs tx of None \<Rightarrow> Undefined | Some ks \<Rightarrow> Items (map Hex ks))]) =
          Inr body \<and>
        concatHex env [''0x03'', body] = Inr out))"
proof (intro conjI allI impI)
  fix e
  assume "assertTransactionEIP4844 env tx = Some e"
  then show "serializeTransactionEIP4844 env tx sig = Inl (External e)"
    by (simp add: serializeTransactionEIP4844_def)
next
  fix al c n p f g l b tail fields body
  assume "assertTransactionEIP4844 env tx = None \<and>
        serializeAccessList env (accessList tx) = Inr al \<and>
        toHex env (chainId tx) = Inr c \<and>
        toHexOrEmpty env (nonce tx) = Inr n \<and>
        toHexOrEmpty env (maxPriorityFeePerGas tx) = Inr p \<and>
        toHexOrEmpty env (maxFeePerGas tx) = Inr f \<and>
        toHexOrEmpty env (gas tx) = Inr g \<and>
        toHexOrEmpty env (value tx) = Inr l \<and>
        toHexOrEmpty env (maxFeePerBlobGas tx) = Inr b \<and>
        toYParitySignatureArray env tx sig = Inr tail \<and>
        fields =
          [Hex c, n, p, f, g,
           Hex (case to tx of None \<Rightarrow> ''0x'' | Some a \<Rightarrow> a),
           l,
           Hex (case data tx of None \<Rightarrow> ''0x'' | Some d \<Rightarrow> d),
           al,
           b,
           (case blobVersionedHashes tx of None \<Rightarrow> Undefined | Some hs \<Rightarrow> Items (map Hex hs))] @ tail \<and>
        toRlp env
          (case blobs tx of
             None \<Rightarrow> Items fields
           | Some bs \<Rightarrow>
               Items [Items fields, Items (map Hex bs),
                 (case kzgCommitments tx of None \<Rightarrow> Undefined | Some ks \<Rightarrow> Items (map Hex ks)),
                 (case kzgProofs tx of None \<Rightarrow> Undefined | Some ks \<Rightarrow> Items (map Hex ks))]) =
          Inr body \<and>
        concatHex env [''0x03'', body] = Inr out"
  then show "serializeTransactionEIP4844 env tx sig = Inr out"
    unfolding serializeTransactionEIP4844_Inr_iff by blast
next
  assume "serializeTransactionEIP4844 env tx sig = Inr out"
  then show "assertTransactionEIP4844 env tx = None"
    unfolding serializeTransactionEIP4844_Inr_iff by blast
next
  assume "serializeTransactionEIP4844 env tx sig = Inr out"
  then show "\<exists>al c n p f g l b tail fields body.
        serializeAccessList env (accessList tx) = Inr al \<and>
        toHex env (chainId tx) = Inr c \<and>
        toHexOrEmpty env (nonce tx) = Inr n \<and>
        toHexOrEmpty env (maxPriorityFeePerGas tx) = Inr p \<and>
        toHexOrEmpty env (maxFeePerGas tx) = Inr f \<and>
        toHexOrEmpty env (gas tx) = Inr g \<and>
        toHexOrEmpty env (value tx) = Inr l \<and>
        toHexOrEmpty env (maxFeePerBlobGas tx) = Inr b \<and>
        toYParitySignatureArray env tx sig = Inr tail \<and>
        fields =
          [Hex c, n, p, f, g,
           Hex (case to tx of None \<Rightarrow> ''0x'' | Some a \<Rightarrow> a),
           l,
           Hex (case data tx of None \<Rightarrow> ''0x'' | Some d \<Rightarrow> d),
           al,
           b,
           (case blobVersionedHashes tx of None \<Rightarrow> Undefined | Some hs \<Rightarrow> Items (map Hex hs))] @ tail \<and>
        toRlp env
          (case blobs tx of
             None \<Rightarrow> Items fields
           | Some bs \<Rightarrow>
               Items [Items fields, Items (map Hex bs),
                 (case kzgCommitments tx of None \<Rightarrow> Undefined | Some ks \<Rightarrow> Items (map Hex ks)),
                 (case kzgProofs tx of None \<Rightarrow> Undefined | Some ks \<Rightarrow> Items (map Hex ks))]) =
          Inr body \<and>
        concatHex env [''0x03'', body] = Inr out"
    unfolding serializeTransactionEIP4844_Inr_iff by blast
qed


theorem serializeTransactionEIP4844_fields_witness:
  "serializeTransactionEIP4844 ref tx4844 None =
     Inr ''0x03f50109843b9aca008504a817c800825208943535353535353535353535353535353535353535880de0b6b3a764000080c003c38201ab'' \<and>
   serializeTransactionEIP4844 ref tx4844_wrapper None =
     Inr ''0x03f840f50109843b9aca008504a817c800825208943535353535353535353535353535353535353535880de0b6b3a764000080c003c38201abc382aabbc281ccc281dd'' \<and>
   serializeTransactionEIP4844 ref empty_transaction None = Inl (External ValidationError)"
proof -
  have plain_steps:
    "assertTransactionEIP4844 ref tx4844 = None"
    "serializeAccessList ref (accessList tx4844) = Inr (Items [])"
    "toHex ref (chainId tx4844) = Inr ''0x01''"
    "toHexOrEmpty ref (nonce tx4844) = Inr (Hex ''0x09'')"
    "toHexOrEmpty ref (maxPriorityFeePerGas tx4844) = Inr (Hex ''0x3b9aca00'')"
    "toHexOrEmpty ref (maxFeePerGas tx4844) = Inr (Hex ''0x04a817c800'')"
    "toHexOrEmpty ref (gas tx4844) = Inr (Hex ''0x5208'')"
    "toHexOrEmpty ref (value tx4844) = Inr (Hex ''0x0de0b6b3a7640000'')"
    "toHexOrEmpty ref (maxFeePerBlobGas tx4844) = Inr (Hex ''0x03'')"
    "toYParitySignatureArray ref tx4844 None = Inr []"
    "to tx4844 = Some ''0x3535353535353535353535353535353535353535''"
    "data tx4844 = None"
    "blobVersionedHashes tx4844 = Some [''0x01ab'']"
    "blobs tx4844 = None"
    "toRlp ref
       (Items [Hex ''0x01'', Hex ''0x09'', Hex ''0x3b9aca00'', Hex ''0x04a817c800'',
          Hex ''0x5208'', Hex ''0x3535353535353535353535353535353535353535'',
          Hex ''0x0de0b6b3a7640000'', Hex ''0x'', Items [], Hex ''0x03'',
          Items [Hex ''0x01ab'']]) =
       Inr ''0xf50109843b9aca008504a817c800825208943535353535353535353535353535353535353535880de0b6b3a764000080c003c38201ab''"
    "concatHex ref
       [''0x03'', ''0xf50109843b9aca008504a817c800825208943535353535353535353535353535353535353535880de0b6b3a764000080c003c38201ab''] =
       Inr ''0x03f50109843b9aca008504a817c800825208943535353535353535353535353535353535353535880de0b6b3a764000080c003c38201ab''"
    by code_simp+
  have plain: "serializeTransactionEIP4844 ref tx4844 None =
      Inr ''0x03f50109843b9aca008504a817c800825208943535353535353535353535353535353535353535880de0b6b3a764000080c003c38201ab''"
    using serializeTransactionEIP4844_fields
      [where env = ref and tx = tx4844 and sig = None, THEN conjunct2,
         THEN conjunct1, rule_format,
         where al = "Items []" and c = "''0x01''" and n = "Hex ''0x09''"
           and p = "Hex ''0x3b9aca00''" and f = "Hex ''0x04a817c800''"
           and g = "Hex ''0x5208''" and l = "Hex ''0x0de0b6b3a7640000''"
           and b = "Hex ''0x03''" and tail = "[]"
           and fields = "[Hex ''0x01'', Hex ''0x09'', Hex ''0x3b9aca00'', Hex ''0x04a817c800'',
          Hex ''0x5208'', Hex ''0x3535353535353535353535353535353535353535'',
          Hex ''0x0de0b6b3a7640000'', Hex ''0x'', Items [], Hex ''0x03'',
          Items [Hex ''0x01ab'']]"] plain_steps
    by simp
  have wrapper_steps:
    "assertTransactionEIP4844 ref tx4844_wrapper = None"
    "serializeAccessList ref (accessList tx4844_wrapper) = Inr (Items [])"
    "toHex ref (chainId tx4844_wrapper) = Inr ''0x01''"
    "toHexOrEmpty ref (nonce tx4844_wrapper) = Inr (Hex ''0x09'')"
    "toHexOrEmpty ref (maxPriorityFeePerGas tx4844_wrapper) = Inr (Hex ''0x3b9aca00'')"
    "toHexOrEmpty ref (maxFeePerGas tx4844_wrapper) = Inr (Hex ''0x04a817c800'')"
    "toHexOrEmpty ref (gas tx4844_wrapper) = Inr (Hex ''0x5208'')"
    "toHexOrEmpty ref (value tx4844_wrapper) = Inr (Hex ''0x0de0b6b3a7640000'')"
    "toHexOrEmpty ref (maxFeePerBlobGas tx4844_wrapper) = Inr (Hex ''0x03'')"
    "toYParitySignatureArray ref tx4844_wrapper None = Inr []"
    "to tx4844_wrapper = Some ''0x3535353535353535353535353535353535353535''"
    "data tx4844_wrapper = None"
    "blobVersionedHashes tx4844_wrapper = Some [''0x01ab'']"
    "blobs tx4844_wrapper = Some [''0xaabb'']"
    "kzgCommitments tx4844_wrapper = Some [''0xcc'']"
    "kzgProofs tx4844_wrapper = Some [''0xdd'']"
    "toRlp ref
       (Items [Items [Hex ''0x01'', Hex ''0x09'', Hex ''0x3b9aca00'', Hex ''0x04a817c800'',
          Hex ''0x5208'', Hex ''0x3535353535353535353535353535353535353535'',
          Hex ''0x0de0b6b3a7640000'', Hex ''0x'', Items [], Hex ''0x03'',
          Items [Hex ''0x01ab'']],
          Items [Hex ''0xaabb''], Items [Hex ''0xcc''], Items [Hex ''0xdd'']]) =
       Inr ''0xf840f50109843b9aca008504a817c800825208943535353535353535353535353535353535353535880de0b6b3a764000080c003c38201abc382aabbc281ccc281dd''"
    "concatHex ref
       [''0x03'', ''0xf840f50109843b9aca008504a817c800825208943535353535353535353535353535353535353535880de0b6b3a764000080c003c38201abc382aabbc281ccc281dd''] =
       Inr ''0x03f840f50109843b9aca008504a817c800825208943535353535353535353535353535353535353535880de0b6b3a764000080c003c38201abc382aabbc281ccc281dd''"
    by code_simp+
  have wrapper: "serializeTransactionEIP4844 ref tx4844_wrapper None =
      Inr ''0x03f840f50109843b9aca008504a817c800825208943535353535353535353535353535353535353535880de0b6b3a764000080c003c38201abc382aabbc281ccc281dd''"
    using serializeTransactionEIP4844_fields
      [where env = ref and tx = tx4844_wrapper and sig = None, THEN conjunct2,
         THEN conjunct1, rule_format,
         where al = "Items []" and c = "''0x01''" and n = "Hex ''0x09''"
           and p = "Hex ''0x3b9aca00''" and f = "Hex ''0x04a817c800''"
           and g = "Hex ''0x5208''" and l = "Hex ''0x0de0b6b3a7640000''"
           and b = "Hex ''0x03''" and tail = "[]"
           and fields = "[Hex ''0x01'', Hex ''0x09'', Hex ''0x3b9aca00'', Hex ''0x04a817c800'',
          Hex ''0x5208'', Hex ''0x3535353535353535353535353535353535353535'',
          Hex ''0x0de0b6b3a7640000'', Hex ''0x'', Items [], Hex ''0x03'',
          Items [Hex ''0x01ab'']]"] wrapper_steps
    by simp
  have "assertTransactionEIP4844 ref empty_transaction = Some ValidationError"
    by code_simp
  then have "serializeTransactionEIP4844 ref empty_transaction None =
      Inl (External ValidationError)"
    using serializeTransactionEIP4844_fields
      [where env = ref and tx = empty_transaction and sig = None, THEN conjunct1]
    by simp
  with plain wrapper show ?thesis by simp
qed

section \<open>The legacy encoder\<close>

lemma serializedTransactionLegacy_Inr_iff:
  fixes env :: "'e collaborators"
  assumes "cid = (case chainId tx of None \<Rightarrow> 0 | Some c \<Rightarrow> c)"
  shows "serializedTransactionLegacy env tx sig = Inr fs \<longleftrightarrow>
     (\<exists>n p g l.
        toHexOrEmpty env (nonce tx) = Inr n \<and>
        toHexOrEmpty env (gasPrice tx) = Inr p \<and>
        toHexOrEmpty env (gas tx) = Inr g \<and>
        toHexOrEmpty env (value tx) = Inr l \<and>
        (case sig of
           Some sg \<Rightarrow>
             \<exists>v' hv.
               legacy_v cid sg = (Inr v' :: 'e error + int) \<and> toHex env (Some v') = Inr hv \<and>
               fs =
                 [n, p, g, Hex (case to tx of None \<Rightarrow> ''0x'' | Some a \<Rightarrow> a), l,
                  Hex (case data tx of None \<Rightarrow> ''0x'' | Some d \<Rightarrow> d)] @
                 [Hex hv,
                  (case r sg of None \<Rightarrow> Undefined | Some h \<Rightarrow> Hex h),
                  (case s sg of None \<Rightarrow> Undefined | Some h \<Rightarrow> Hex h)]
         | None \<Rightarrow>
             if 0 < cid then
               \<exists>hc.
                 toHex env (Some cid) = Inr hc \<and>
                 fs =
                   [n, p, g, Hex (case to tx of None \<Rightarrow> ''0x'' | Some a \<Rightarrow> a), l,
                    Hex (case data tx of None \<Rightarrow> ''0x'' | Some d \<Rightarrow> d)] @
                   [Hex hc, Hex ''0x'', Hex ''0x'']
             else
               fs =
                 [n, p, g, Hex (case to tx of None \<Rightarrow> ''0x'' | Some a \<Rightarrow> a), l,
                  Hex (case data tx of None \<Rightarrow> ''0x'' | Some d \<Rightarrow> d)]))"
proof (cases sig)
  case None
  then show ?thesis
    using assms unfolding serializedTransactionLegacy_def Let_def
    by (auto simp: Inr_iffs orEmpty_eq)
next
  case (Some sg)
  then show ?thesis
    using assms unfolding serializedTransactionLegacy_def Let_def field_def
    by (auto simp: Inr_iffs orEmpty_eq)
qed

text \<open>
  C7. With \<open>cid\<close> the chain id of the record after its default 0, the legacy field list
  is the six base fields (nonce, gas price, gas limit, recipient, value, data, each one or
  the placeholder) followed by: \<^verbatim>\<open>toHex(v)\<close>, \<open>r\<close> and \<open>s\<close> when a signature is supplied,
  \<open>r\<close> and \<open>s\<close> being the properties of the signature as they are; by \<^verbatim>\<open>toHex(chainId)\<close>,
  \<^verbatim>\<open>'0x'\<close>, \<^verbatim>\<open>'0x'\<close> when there is no signature and \<open>cid > 0\<close>; by nothing when there is no
  signature and the chain id is absent or 0. The result of the encoder is the result of
  \<^verbatim>\<open>toRlp\<close> on this list, with nothing prepended, and the assertion comes first.
\<close>

theorem serializeTransactionLegacy_fields:
  fixes env :: "'e collaborators"
  assumes "cid = (case chainId tx of None \<Rightarrow> 0 | Some c \<Rightarrow> c)"
  shows
    "(\<forall>e. assertTransactionLegacy env tx = Some e \<longrightarrow>
        serializeTransactionLegacy env tx sig = Inl (External e)) \<and>
     (serializeTransactionLegacy env tx sig = Inr out \<longleftrightarrow>
        assertTransactionLegacy env tx = None \<and>
        (\<exists>fs. serializedTransactionLegacy env tx sig = Inr fs \<and>
           toRlp env (Items fs) = Inr out)) \<and>
     (serializedTransactionLegacy env tx sig = Inr fs \<longleftrightarrow>
     (\<exists>n p g l.
        toHexOrEmpty env (nonce tx) = Inr n \<and>
        toHexOrEmpty env (gasPrice tx) = Inr p \<and>
        toHexOrEmpty env (gas tx) = Inr g \<and>
        toHexOrEmpty env (value tx) = Inr l \<and>
        (case sig of
           Some sg \<Rightarrow>
             \<exists>v' hv.
               legacy_v cid sg = (Inr v' :: 'e error + int) \<and> toHex env (Some v') = Inr hv \<and>
               fs =
                 [n, p, g, Hex (case to tx of None \<Rightarrow> ''0x'' | Some a \<Rightarrow> a), l,
                  Hex (case data tx of None \<Rightarrow> ''0x'' | Some d \<Rightarrow> d)] @
                 [Hex hv,
                  (case r sg of None \<Rightarrow> Undefined | Some h \<Rightarrow> Hex h),
                  (case s sg of None \<Rightarrow> Undefined | Some h \<Rightarrow> Hex h)]
         | None \<Rightarrow>
             if 0 < cid then
               \<exists>hc.
                 toHex env (Some cid) = Inr hc \<and>
                 fs =
                   [n, p, g, Hex (case to tx of None \<Rightarrow> ''0x'' | Some a \<Rightarrow> a), l,
                    Hex (case data tx of None \<Rightarrow> ''0x'' | Some d \<Rightarrow> d)] @
                   [Hex hc, Hex ''0x'', Hex ''0x'']
             else
               fs =
                 [n, p, g, Hex (case to tx of None \<Rightarrow> ''0x'' | Some a \<Rightarrow> a), l,
                  Hex (case data tx of None \<Rightarrow> ''0x'' | Some d \<Rightarrow> d)])))"
proof (intro conjI allI impI)
  fix e
  assume "assertTransactionLegacy env tx = Some e"
  then show "serializeTransactionLegacy env tx sig = Inl (External e)"
    by (simp add: serializeTransactionLegacy_def)
next
  show "serializeTransactionLegacy env tx sig = Inr out \<longleftrightarrow>
      assertTransactionLegacy env tx = None \<and>
      (\<exists>fs. serializedTransactionLegacy env tx sig = Inr fs \<and> toRlp env (Items fs) = Inr out)"
    unfolding serializeTransactionLegacy_def
    by (cases "assertTransactionLegacy env tx") (simp_all add: Inr_iffs)
next
  show "serializedTransactionLegacy env tx sig = Inr fs \<longleftrightarrow>
     (\<exists>n p g l.
        toHexOrEmpty env (nonce tx) = Inr n \<and>
        toHexOrEmpty env (gasPrice tx) = Inr p \<and>
        toHexOrEmpty env (gas tx) = Inr g \<and>
        toHexOrEmpty env (value tx) = Inr l \<and>
        (case sig of
           Some sg \<Rightarrow>
             \<exists>v' hv.
               legacy_v cid sg = (Inr v' :: 'e error + int) \<and> toHex env (Some v') = Inr hv \<and>
               fs =
                 [n, p, g, Hex (case to tx of None \<Rightarrow> ''0x'' | Some a \<Rightarrow> a), l,
                  Hex (case data tx of None \<Rightarrow> ''0x'' | Some d \<Rightarrow> d)] @
                 [Hex hv,
                  (case r sg of None \<Rightarrow> Undefined | Some h \<Rightarrow> Hex h),
                  (case s sg of None \<Rightarrow> Undefined | Some h \<Rightarrow> Hex h)]
         | None \<Rightarrow>
             if 0 < cid then
               \<exists>hc.
                 toHex env (Some cid) = Inr hc \<and>
                 fs =
                   [n, p, g, Hex (case to tx of None \<Rightarrow> ''0x'' | Some a \<Rightarrow> a), l,
                    Hex (case data tx of None \<Rightarrow> ''0x'' | Some d \<Rightarrow> d)] @
                   [Hex hc, Hex ''0x'', Hex ''0x'']
             else
               fs =
                 [n, p, g, Hex (case to tx of None \<Rightarrow> ''0x'' | Some a \<Rightarrow> a), l,
                  Hex (case data tx of None \<Rightarrow> ''0x'' | Some d \<Rightarrow> d)]))"
    using assms by (rule serializedTransactionLegacy_Inr_iff)
qed

theorem serializeTransactionLegacy_fields_witness:
  "serializeTransactionLegacy ref tx155 (Some sig155) =
     Inr ''0xf86c098504a817c800825208943535353535353535353535353535353535353535880de0b6b3a76400008025a028ef61340bd939bc2169fe3a2e0bbfb2e4a0d0c5e5b8a6b7a3d1c9d48a5f2f3aa067cbe9d8997f761aecb703304b3800ccf555c9f3dc64214b297fb1966a3b6d83'' \<and>
   serializeTransactionLegacy ref tx155 None =
     Inr ''0xec098504a817c800825208943535353535353535353535353535353535353535880de0b6b3a764000080018080'' \<and>
   serializeTransactionLegacy ref (tx155\<lparr>chainId := None\<rparr>) None =
     Inr ''0xe9098504a817c800825208943535353535353535353535353535353535353535880de0b6b3a764000080''"
proof -
  have steps:
    "assertTransactionLegacy ref tx155 = None"
    "toHexOrEmpty ref (nonce tx155) = Inr (Hex ''0x09'')"
    "toHexOrEmpty ref (gasPrice tx155) = Inr (Hex ''0x04a817c800'')"
    "toHexOrEmpty ref (gas tx155) = Inr (Hex ''0x5208'')"
    "toHexOrEmpty ref (value tx155) = Inr (Hex ''0x0de0b6b3a7640000'')"
    "to tx155 = Some ''0x3535353535353535353535353535353535353535''"
    "data tx155 = None"
    "chainId tx155 = Some 1"
    "legacy_v 1 sig155 = (Inr 37 :: ref_error error + int)"
    "toHex ref (Some 37) = Inr ''0x25''"
    "toHex ref (Some 1) = Inr ''0x01''"
    "r sig155 = Some ''0x28ef61340bd939bc2169fe3a2e0bbfb2e4a0d0c5e5b8a6b7a3d1c9d48a5f2f3a''"
    "s sig155 = Some ''0x67cbe9d8997f761aecb703304b3800ccf555c9f3dc64214b297fb1966a3b6d83''"
    by code_simp+
  have rlp:
    "toRlp ref
       (Items [Hex ''0x09'', Hex ''0x04a817c800'', Hex ''0x5208'',
          Hex ''0x3535353535353535353535353535353535353535'',
          Hex ''0x0de0b6b3a7640000'', Hex ''0x'',
          Hex ''0x25'',
          Hex ''0x28ef61340bd939bc2169fe3a2e0bbfb2e4a0d0c5e5b8a6b7a3d1c9d48a5f2f3a'',
          Hex ''0x67cbe9d8997f761aecb703304b3800ccf555c9f3dc64214b297fb1966a3b6d83'']) =
     Inr ''0xf86c098504a817c800825208943535353535353535353535353535353535353535880de0b6b3a76400008025a028ef61340bd939bc2169fe3a2e0bbfb2e4a0d0c5e5b8a6b7a3d1c9d48a5f2f3aa067cbe9d8997f761aecb703304b3800ccf555c9f3dc64214b297fb1966a3b6d83''"
    "toRlp ref
       (Items [Hex ''0x09'', Hex ''0x04a817c800'', Hex ''0x5208'',
          Hex ''0x3535353535353535353535353535353535353535'',
          Hex ''0x0de0b6b3a7640000'', Hex ''0x'',
          Hex ''0x01'', Hex ''0x'', Hex ''0x'']) =
     Inr ''0xec098504a817c800825208943535353535353535353535353535353535353535880de0b6b3a764000080018080''"
    "toRlp ref
       (Items [Hex ''0x09'', Hex ''0x04a817c800'', Hex ''0x5208'',
          Hex ''0x3535353535353535353535353535353535353535'',
          Hex ''0x0de0b6b3a7640000'', Hex ''0x'']) =
     Inr ''0xe9098504a817c800825208943535353535353535353535353535353535353535880de0b6b3a764000080''"
    by code_simp+
  have plain_steps:
    "assertTransactionLegacy ref (tx155\<lparr>chainId := None\<rparr>) = None"
    "toHexOrEmpty ref (nonce (tx155\<lparr>chainId := None\<rparr>)) = Inr (Hex ''0x09'')"
    "toHexOrEmpty ref (gasPrice (tx155\<lparr>chainId := None\<rparr>)) = Inr (Hex ''0x04a817c800'')"
    "toHexOrEmpty ref (gas (tx155\<lparr>chainId := None\<rparr>)) = Inr (Hex ''0x5208'')"
    "toHexOrEmpty ref (value (tx155\<lparr>chainId := None\<rparr>)) = Inr (Hex ''0x0de0b6b3a7640000'')"
    "to (tx155\<lparr>chainId := None\<rparr>) = Some ''0x3535353535353535353535353535353535353535''"
    "data (tx155\<lparr>chainId := None\<rparr>) = None"
    by code_simp+
  have signed_fields: "serializedTransactionLegacy ref tx155 (Some sig155) =
      Inr [Hex ''0x09'', Hex ''0x04a817c800'', Hex ''0x5208'',
          Hex ''0x3535353535353535353535353535353535353535'',
          Hex ''0x0de0b6b3a7640000'', Hex ''0x'',
          Hex ''0x25'',
          Hex ''0x28ef61340bd939bc2169fe3a2e0bbfb2e4a0d0c5e5b8a6b7a3d1c9d48a5f2f3a'',
          Hex ''0x67cbe9d8997f761aecb703304b3800ccf555c9f3dc64214b297fb1966a3b6d83'']"
    using serializeTransactionLegacy_fields
      [where env = ref and tx = tx155 and sig = "Some sig155" and cid = 1,
         THEN conjunct2, THEN conjunct2] steps
    by simp
  have signed: "serializeTransactionLegacy ref tx155 (Some sig155) =
      Inr ''0xf86c098504a817c800825208943535353535353535353535353535353535353535880de0b6b3a76400008025a028ef61340bd939bc2169fe3a2e0bbfb2e4a0d0c5e5b8a6b7a3d1c9d48a5f2f3aa067cbe9d8997f761aecb703304b3800ccf555c9f3dc64214b297fb1966a3b6d83''"
    using serializeTransactionLegacy_fields
      [where env = ref and tx = tx155 and sig = "Some sig155" and cid = 1,
         THEN conjunct2, THEN conjunct1] steps(1,8) signed_fields rlp(1)
    by simp
  have unsigned_fields: "serializedTransactionLegacy ref tx155 None =
      Inr [Hex ''0x09'', Hex ''0x04a817c800'', Hex ''0x5208'',
          Hex ''0x3535353535353535353535353535353535353535'',
          Hex ''0x0de0b6b3a7640000'', Hex ''0x'',
          Hex ''0x01'', Hex ''0x'', Hex ''0x'']"
    using serializeTransactionLegacy_fields
      [where env = ref and tx = tx155 and sig = None and cid = 1,
         THEN conjunct2, THEN conjunct2] steps
    by simp
  have unsigned: "serializeTransactionLegacy ref tx155 None =
      Inr ''0xec098504a817c800825208943535353535353535353535353535353535353535880de0b6b3a764000080018080''"
    using serializeTransactionLegacy_fields
      [where env = ref and tx = tx155 and sig = None and cid = 1,
         THEN conjunct2, THEN conjunct1] steps(1,8) unsigned_fields rlp(2)
    by simp
  have plain_fields: "serializedTransactionLegacy ref (tx155\<lparr>chainId := None\<rparr>) None =
      Inr [Hex ''0x09'', Hex ''0x04a817c800'', Hex ''0x5208'',
          Hex ''0x3535353535353535353535353535353535353535'',
          Hex ''0x0de0b6b3a7640000'', Hex ''0x'']"
    using serializeTransactionLegacy_fields
      [where env = ref and tx = "tx155\<lparr>chainId := None\<rparr>" and sig = None and cid = 0,
         THEN conjunct2, THEN conjunct2] plain_steps
    by simp
  have plain: "serializeTransactionLegacy ref (tx155\<lparr>chainId := None\<rparr>) None =
      Inr ''0xe9098504a817c800825208943535353535353535353535353535353535353535880de0b6b3a764000080''"
    using serializeTransactionLegacy_fields
      [where env = ref and tx = "tx155\<lparr>chainId := None\<rparr>" and sig = None and cid = 0,
         THEN conjunct2, THEN conjunct1] plain_steps(1) plain_fields rlp(3)
    by simp
  from signed unsigned plain show ?thesis by simp
qed

section \<open>Zero and absent fields\<close>

lemma serializedTransactionEIP1559_Inr_iff:
  "serializedTransactionEIP1559 env tx sig al = Inr fs \<longleftrightarrow>
     (\<exists>c n p f g l tail.
        toHex env (chainId tx) = Inr c \<and>
        toHexOrEmpty env (nonce tx) = Inr n \<and>
        toHexOrEmpty env (maxPriorityFeePerGas tx) = Inr p \<and>
        toHexOrEmpty env (maxFeePerGas tx) = Inr f \<and>
        toHexOrEmpty env (gas tx) = Inr g \<and>
        toHexOrEmpty env (value tx) = Inr l \<and>
        toYParitySignatureArray env tx sig = Inr tail \<and>
        fs =
          [Hex c, n, p, f, g,
           Hex (case to tx of None \<Rightarrow> ''0x'' | Some a \<Rightarrow> a),
           l,
           Hex (case data tx of None \<Rightarrow> ''0x'' | Some d \<Rightarrow> d),
           al] @ tail)"
  unfolding serializedTransactionEIP1559_def
  by (auto simp: Inr_iffs orEmpty_eq fieldList_def)

lemma serializedTransactionEIP2930_Inr_iff:
  "serializedTransactionEIP2930 env tx sig al = Inr fs \<longleftrightarrow>
     (\<exists>c n p g l tail.
        toHex env (chainId tx) = Inr c \<and>
        toHexOrEmpty env (nonce tx) = Inr n \<and>
        toHexOrEmpty env (gasPrice tx) = Inr p \<and>
        toHexOrEmpty env (gas tx) = Inr g \<and>
        toHexOrEmpty env (value tx) = Inr l \<and>
        toYParitySignatureArray env tx sig = Inr tail \<and>
        fs =
          [Hex c, n, p, g, Hex (case to tx of None \<Rightarrow> ''0x'' | Some a \<Rightarrow> a),
           l,
           Hex (case data tx of None \<Rightarrow> ''0x'' | Some d \<Rightarrow> d),
           al] @ tail)"
  unfolding serializedTransactionEIP2930_def
  by (auto simp: Inr_iffs orEmpty_eq fieldList_def)

lemma toHexOrEmpty_same:
  "x' = x \<or> (x \<in> {None, Some 0} \<and> x' \<in> {None, Some 0}) \<Longrightarrow>
     toHexOrEmpty env x' = toHexOrEmpty env x"
  by (auto simp: toHexOrEmpty_def truthy_def)

lemma toYParitySignatureArray_same:
  "signature.truncate tx' = signature.truncate tx \<Longrightarrow>
     toYParitySignatureArray env tx' sig = toYParitySignatureArray env tx sig"
  by (cases sig) (simp_all add: toYParitySignatureArray_def)

lemma serializedTransactionLegacy_length:
  assumes "serializedTransactionLegacy env tx sig = Inr fs"
  shows "length fs =
        (if sig = None \<and> \<not> 0 < (case chainId tx of None \<Rightarrow> 0 | Some c \<Rightarrow> c) then 6 else 9) \<and>
      fs ! 3 = Hex (case to tx of None \<Rightarrow> ''0x'' | Some a \<Rightarrow> a) \<and>
      fs ! 5 = Hex (case data tx of None \<Rightarrow> ''0x'' | Some d \<Rightarrow> d)"
  using assms serializedTransactionLegacy_Inr_iff [OF refl, of env tx sig fs]
  by (cases sig) (auto split: if_splits)

lemma serializedTransactionEIP2930_length:
  assumes "serializedTransactionEIP2930 env tx sig al = Inr fs"
  shows "(\<exists>tail. toYParitySignatureArray env tx sig = Inr tail \<and> length fs = 8 + length tail) \<and>
      fs ! 4 = Hex (case to tx of None \<Rightarrow> ''0x'' | Some a \<Rightarrow> a) \<and>
      fs ! 6 = Hex (case data tx of None \<Rightarrow> ''0x'' | Some d \<Rightarrow> d)"
  using assms unfolding serializedTransactionEIP2930_Inr_iff by auto

lemma serializedTransactionEIP1559_length:
  assumes "serializedTransactionEIP1559 env tx sig al = Inr fs"
  shows "(\<exists>tail. toYParitySignatureArray env tx sig = Inr tail \<and> length fs = 9 + length tail) \<and>
      fs ! 5 = Hex (case to tx of None \<Rightarrow> ''0x'' | Some a \<Rightarrow> a) \<and>
      fs ! 7 = Hex (case data tx of None \<Rightarrow> ''0x'' | Some d \<Rightarrow> d)"
  using assms unfolding serializedTransactionEIP1559_Inr_iff by auto

lemma serializedTransactionEIP4844_length:
  assumes "serializedTransactionEIP4844 env tx sig al = Inr fs"
  shows "(\<exists>tail. toYParitySignatureArray env tx sig = Inr tail \<and> length fs = 11 + length tail) \<and>
      fs ! 5 = Hex (case to tx of None \<Rightarrow> ''0x'' | Some a \<Rightarrow> a) \<and>
      fs ! 7 = Hex (case data tx of None \<Rightarrow> ''0x'' | Some d \<Rightarrow> d)"
  using assms unfolding serializedTransactionEIP4844_Inr_iff by auto

text \<open>
  C8. Let \<open>tx'\<close> differ from \<open>tx\<close> at most in the numeric fields nonce, value, gas limit,
  gas price, max fee, max priority fee and max fee per blob gas, and there only by
  exchanging zero and absent. Then the two records have the same field list in each of
  the four variants, the same result from each encoder whose assertion does not tell
  them apart, and the same result from \<^verbatim>\<open>serializeTransaction\<close> when neither the type
  inference nor the assertions tell them apart. The recipient and the data are always in
  the list, as \<^verbatim>\<open>'0x'\<close> when absent, so that the number of base fields of a variant is
  fixed: 6, 8, 9 and 11, before a tail of 0 or 3 fields.
\<close>

theorem zero_same_as_absent:
  fixes env :: "'e collaborators"
  assumes "n' = nonce tx \<or> (nonce tx \<in> {None, Some 0} \<and> n' \<in> {None, Some 0})"
    and "l' = value tx \<or> (value tx \<in> {None, Some 0} \<and> l' \<in> {None, Some 0})"
    and "g' = gas tx \<or> (gas tx \<in> {None, Some 0} \<and> g' \<in> {None, Some 0})"
    and "p' = gasPrice tx \<or> (gasPrice tx \<in> {None, Some 0} \<and> p' \<in> {None, Some 0})"
    and "f' = maxFeePerGas tx \<or> (maxFeePerGas tx \<in> {None, Some 0} \<and> f' \<in> {None, Some 0})"
    and "q' = maxPriorityFeePerGas tx \<or>
         (maxPriorityFeePerGas tx \<in> {None, Some 0} \<and> q' \<in> {None, Some 0})"
    and "b' = maxFeePerBlobGas tx \<or>
         (maxFeePerBlobGas tx \<in> {None, Some 0} \<and> b' \<in> {None, Some 0})"
    and "tx' = tx\<lparr>nonce := n', value := l', gas := g', gasPrice := p', maxFeePerGas := f',
           maxPriorityFeePerGas := q', maxFeePerBlobGas := b'\<rparr>"
  shows
    "serializedTransactionLegacy env tx' sig = serializedTransactionLegacy env tx sig \<and>
     serializedTransactionEIP2930 env tx' sig al = serializedTransactionEIP2930 env tx sig al \<and>
     serializedTransactionEIP1559 env tx' sig al = serializedTransactionEIP1559 env tx sig al \<and>
     serializedTransactionEIP4844 env tx' sig al = serializedTransactionEIP4844 env tx sig al \<and>
     (assertTransactionLegacy env tx' = assertTransactionLegacy env tx \<longrightarrow>
        serializeTransactionLegacy env tx' sig = serializeTransactionLegacy env tx sig) \<and>
     (assertTransactionEIP2930 env tx' = assertTransactionEIP2930 env tx \<longrightarrow>
        serializeTransactionEIP2930 env tx' sig = serializeTransactionEIP2930 env tx sig) \<and>
     (assertTransactionEIP1559 env tx' = assertTransactionEIP1559 env tx \<longrightarrow>
        serializeTransactionEIP1559 env tx' sig = serializeTransactionEIP1559 env tx sig) \<and>
     (assertTransactionEIP4844 env tx' = assertTransactionEIP4844 env tx \<longrightarrow>
        serializeTransactionEIP4844 env tx' sig = serializeTransactionEIP4844 env tx sig) \<and>
     (getTransactionType env tx' = getTransactionType env tx \<and>
      assertTransactionLegacy env tx' = assertTransactionLegacy env tx \<and>
      assertTransactionEIP2930 env tx' = assertTransactionEIP2930 env tx \<and>
      assertTransactionEIP1559 env tx' = assertTransactionEIP1559 env tx \<and>
      assertTransactionEIP4844 env tx' = assertTransactionEIP4844 env tx \<longrightarrow>
        serializeTransaction env tx' sig = serializeTransaction env tx sig) \<and>
     (\<forall>fs. serializedTransactionLegacy env tx sig = Inr fs \<longrightarrow>
        length fs =
          (if sig = None \<and> \<not> 0 < (case chainId tx of None \<Rightarrow> 0 | Some c \<Rightarrow> c) then 6 else 9) \<and>
        fs ! 3 = Hex (case to tx of None \<Rightarrow> ''0x'' | Some a \<Rightarrow> a) \<and>
        fs ! 5 = Hex (case data tx of None \<Rightarrow> ''0x'' | Some d \<Rightarrow> d)) \<and>
     (\<forall>fs. serializedTransactionEIP2930 env tx sig al = Inr fs \<longrightarrow>
        (\<exists>tail. toYParitySignatureArray env tx sig = Inr tail \<and>
           length fs = 8 + length tail) \<and>
        fs ! 4 = Hex (case to tx of None \<Rightarrow> ''0x'' | Some a \<Rightarrow> a) \<and>
        fs ! 6 = Hex (case data tx of None \<Rightarrow> ''0x'' | Some d \<Rightarrow> d)) \<and>
     (\<forall>fs. serializedTransactionEIP1559 env tx sig al = Inr fs \<longrightarrow>
        (\<exists>tail. toYParitySignatureArray env tx sig = Inr tail \<and>
           length fs = 9 + length tail) \<and>
        fs ! 5 = Hex (case to tx of None \<Rightarrow> ''0x'' | Some a \<Rightarrow> a) \<and>
        fs ! 7 = Hex (case data tx of None \<Rightarrow> ''0x'' | Some d \<Rightarrow> d)) \<and>
     (\<forall>fs. serializedTransactionEIP4844 env tx sig al = Inr fs \<longrightarrow>
        (\<exists>tail. toYParitySignatureArray env tx sig = Inr tail \<and>
           length fs = 11 + length tail) \<and>
        fs ! 5 = Hex (case to tx of None \<Rightarrow> ''0x'' | Some a \<Rightarrow> a) \<and>
        fs ! 7 = Hex (case data tx of None \<Rightarrow> ''0x'' | Some d \<Rightarrow> d))"
proof -
  have same:
    "toHexOrEmpty env (nonce tx') = toHexOrEmpty env (nonce tx)"
    "toHexOrEmpty env (value tx') = toHexOrEmpty env (value tx)"
    "toHexOrEmpty env (gas tx') = toHexOrEmpty env (gas tx)"
    "toHexOrEmpty env (gasPrice tx') = toHexOrEmpty env (gasPrice tx)"
    "toHexOrEmpty env (maxFeePerGas tx') = toHexOrEmpty env (maxFeePerGas tx)"
    "toHexOrEmpty env (maxPriorityFeePerGas tx') = toHexOrEmpty env (maxPriorityFeePerGas tx)"
    "toHexOrEmpty env (maxFeePerBlobGas tx') = toHexOrEmpty env (maxFeePerBlobGas tx)"
    using assms by (simp_all add: toHexOrEmpty_same)
  have other:
    "chainId tx' = chainId tx" "to tx' = to tx" "data tx' = data tx"
    "accessList tx' = accessList tx" "blobVersionedHashes tx' = blobVersionedHashes tx"
    "blobs tx' = blobs tx" "kzgCommitments tx' = kzgCommitments tx"
    "kzgProofs tx' = kzgProofs tx"
    using assms(8) by simp_all
  have tail: "toYParitySignatureArray env tx' sig = toYParitySignatureArray env tx sig"
    using assms(8) by (intro toYParitySignatureArray_same) (simp add: signature.truncate_def)
  have legacy: "serializedTransactionLegacy env tx' sig = serializedTransactionLegacy env tx sig"
    unfolding serializedTransactionLegacy_def by (simp only: same other)
  have eip2930: "serializedTransactionEIP2930 env tx' sig al =
      serializedTransactionEIP2930 env tx sig al" for al
    unfolding serializedTransactionEIP2930_def by (simp only: same other tail)
  have eip1559: "serializedTransactionEIP1559 env tx' sig al =
      serializedTransactionEIP1559 env tx sig al" for al
    unfolding serializedTransactionEIP1559_def by (simp only: same other tail)
  have eip4844: "serializedTransactionEIP4844 env tx' sig al =
      serializedTransactionEIP4844 env tx sig al" for al
    unfolding serializedTransactionEIP4844_def by (simp only: same other tail)
  have enc_legacy: "serializeTransactionLegacy env tx' sig = serializeTransactionLegacy env tx sig"
    if "assertTransactionLegacy env tx' = assertTransactionLegacy env tx"
    unfolding serializeTransactionLegacy_def by (simp only: that legacy)
  have enc_eip2930:
    "serializeTransactionEIP2930 env tx' sig = serializeTransactionEIP2930 env tx sig"
    if "assertTransactionEIP2930 env tx' = assertTransactionEIP2930 env tx"
    unfolding serializeTransactionEIP2930_def by (simp only: that eip2930 other)
  have enc_eip1559:
    "serializeTransactionEIP1559 env tx' sig = serializeTransactionEIP1559 env tx sig"
    if "assertTransactionEIP1559 env tx' = assertTransactionEIP1559 env tx"
    unfolding serializeTransactionEIP1559_def by (simp only: that eip1559 other)
  have enc_eip4844:
    "serializeTransactionEIP4844 env tx' sig = serializeTransactionEIP4844 env tx sig"
    if "assertTransactionEIP4844 env tx' = assertTransactionEIP4844 env tx"
    unfolding serializeTransactionEIP4844_def by (simp only: that eip4844 other)
  have dispatch: "serializeTransaction env tx' sig = serializeTransaction env tx sig"
    if "getTransactionType env tx' = getTransactionType env tx \<and>
      assertTransactionLegacy env tx' = assertTransactionLegacy env tx \<and>
      assertTransactionEIP2930 env tx' = assertTransactionEIP2930 env tx \<and>
      assertTransactionEIP1559 env tx' = assertTransactionEIP1559 env tx \<and>
      assertTransactionEIP4844 env tx' = assertTransactionEIP4844 env tx"
    unfolding serializeTransaction_def
    using that enc_legacy enc_eip2930 enc_eip1559 enc_eip4844
    by (cases "getTransactionType env tx") (simp_all add: and_then_def external_def)
  show ?thesis
    using legacy eip2930 eip1559 eip4844 enc_legacy enc_eip2930 enc_eip1559 enc_eip4844
      dispatch serializedTransactionLegacy_length [of env tx sig]
      serializedTransactionEIP2930_length [of env tx sig al]
      serializedTransactionEIP1559_length [of env tx sig al]
      serializedTransactionEIP4844_length [of env tx sig al]
    by blast
qed

theorem zero_same_as_absent_witness:
  "serializeTransactionLegacy ref (tx155\<lparr>value := None\<rparr>) None =
     serializeTransactionLegacy ref (tx155\<lparr>value := Some 0\<rparr>) None \<and>
   serializeTransactionEIP1559 ref (tx1559\<lparr>nonce := None\<rparr>) None =
     serializeTransactionEIP1559 ref (tx1559\<lparr>nonce := Some 0\<rparr>) None"
proof -
  have a: "assertTransactionLegacy ref (tx155\<lparr>value := None\<rparr>) =
      assertTransactionLegacy ref (tx155\<lparr>value := Some 0\<rparr>)"
    "assertTransactionEIP1559 ref (tx1559\<lparr>nonce := None\<rparr>) =
      assertTransactionEIP1559 ref (tx1559\<lparr>nonce := Some 0\<rparr>)"
    by code_simp+
  have "serializeTransactionLegacy ref (tx155\<lparr>value := None\<rparr>) None =
      serializeTransactionLegacy ref (tx155\<lparr>value := Some 0\<rparr>) None"
    using a(1) zero_same_as_absent
      [where env = ref and tx = "tx155\<lparr>value := Some 0\<rparr>" and tx' = "tx155\<lparr>value := None\<rparr>"
         and sig = None and al = "Items []" and l' = None
         and n' = "nonce tx155" and g' = "gas tx155" and p' = "gasPrice tx155"
         and f' = "maxFeePerGas tx155" and q' = "maxPriorityFeePerGas tx155"
         and b' = "maxFeePerBlobGas tx155"]
    by simp
  moreover have "serializeTransactionEIP1559 ref (tx1559\<lparr>nonce := None\<rparr>) None =
      serializeTransactionEIP1559 ref (tx1559\<lparr>nonce := Some 0\<rparr>) None"
    using a(2) zero_same_as_absent
      [where env = ref and tx = "tx1559\<lparr>nonce := Some 0\<rparr>" and tx' = "tx1559\<lparr>nonce := None\<rparr>"
         and sig = None and al = "Items []" and n' = None
         and l' = "value tx1559" and g' = "gas tx1559" and p' = "gasPrice tx1559"
         and f' = "maxFeePerGas tx1559" and q' = "maxPriorityFeePerGas tx1559"
         and b' = "maxFeePerBlobGas tx1559"]
    by simp
  ultimately show ?thesis by simp
qed

section \<open>An explicit signature replaces the record\<close>

text \<open>
  C9. \<^verbatim>\<open>signature ?? transaction\<close> takes all four properties from the signature
  argument when there is one: the record plays no part. So with a signature argument
  whose \<open>r\<close> is undefined the tail is empty, whatever signature the record carries: the
  field list of each typed variant is the one of the record stripped of its signature,
  it has the base fields only, and the encoders return what they return for the
  stripped record when the assertion does not tell the two records apart.
\<close>

theorem explicit_signature_replaces_record:
  fixes env :: "'e collaborators"
  assumes "r sg = None"
    and "unsigned = tx\<lparr>r := None, s := None, v := None, yParity := None\<rparr>"
  shows
    "toYParitySignatureArray env tx (Some sg) = Inr [] \<and>
     toYParitySignatureArray env tx (Some sg') = toYParitySignatureArray env tx' (Some sg') \<and>
     serializedTransactionEIP2930 env tx (Some sg) al =
       serializedTransactionEIP2930 env unsigned None al \<and>
     serializedTransactionEIP1559 env tx (Some sg) al =
       serializedTransactionEIP1559 env unsigned None al \<and>
     serializedTransactionEIP4844 env tx (Some sg) al =
       serializedTransactionEIP4844 env unsigned None al \<and>
     (\<forall>fs. serializedTransactionEIP2930 env tx (Some sg) al = Inr fs \<longrightarrow> length fs = 8) \<and>
     (\<forall>fs. serializedTransactionEIP1559 env tx (Some sg) al = Inr fs \<longrightarrow> length fs = 9) \<and>
     (\<forall>fs. serializedTransactionEIP4844 env tx (Some sg) al = Inr fs \<longrightarrow> length fs = 11) \<and>
     (assertTransactionEIP2930 env unsigned = assertTransactionEIP2930 env tx \<longrightarrow>
        serializeTransactionEIP2930 env tx (Some sg) =
          serializeTransactionEIP2930 env unsigned None) \<and>
     (assertTransactionEIP1559 env unsigned = assertTransactionEIP1559 env tx \<longrightarrow>
        serializeTransactionEIP1559 env tx (Some sg) =
          serializeTransactionEIP1559 env unsigned None) \<and>
     (assertTransactionEIP4844 env unsigned = assertTransactionEIP4844 env tx \<longrightarrow>
        serializeTransactionEIP4844 env tx (Some sg) =
          serializeTransactionEIP4844 env unsigned None)"
proof -
  have empty: "toYParitySignatureArray env tx (Some sg) = Inr []"
    using assms(1) by (simp add: toYParitySignatureArray_def)
  have empty': "toYParitySignatureArray env unsigned None = Inr []"
    using assms(2) by (simp add: toYParitySignatureArray_def signature.truncate_def)
  have whole: "toYParitySignatureArray env tx (Some sg') =
      toYParitySignatureArray env tx' (Some sg')"
    by (simp add: toYParitySignatureArray_def)
  have other:
    "chainId unsigned = chainId tx" "nonce unsigned = nonce tx" "gas unsigned = gas tx"
    "to unsigned = to tx" "value unsigned = value tx" "data unsigned = data tx"
    "gasPrice unsigned = gasPrice tx" "maxFeePerGas unsigned = maxFeePerGas tx"
    "maxPriorityFeePerGas unsigned = maxPriorityFeePerGas tx"
    "maxFeePerBlobGas unsigned = maxFeePerBlobGas tx"
    "accessList unsigned = accessList tx"
    "blobVersionedHashes unsigned = blobVersionedHashes tx"
    "blobs unsigned = blobs tx" "kzgCommitments unsigned = kzgCommitments tx"
    "kzgProofs unsigned = kzgProofs tx"
    using assms(2) by simp_all
  have eip2930: "serializedTransactionEIP2930 env tx (Some sg) al =
      serializedTransactionEIP2930 env unsigned None al" for al
    unfolding serializedTransactionEIP2930_def by (simp only: other empty empty')
  have eip1559: "serializedTransactionEIP1559 env tx (Some sg) al =
      serializedTransactionEIP1559 env unsigned None al" for al
    unfolding serializedTransactionEIP1559_def by (simp only: other empty empty')
  have eip4844: "serializedTransactionEIP4844 env tx (Some sg) al =
      serializedTransactionEIP4844 env unsigned None al" for al
    unfolding serializedTransactionEIP4844_def by (simp only: other empty empty')
  have len2930: "length fs = 8"
    if "serializedTransactionEIP2930 env tx (Some sg) al = Inr fs" for fs
    using serializedTransactionEIP2930_length [OF that] empty by auto
  have len1559: "length fs = 9"
    if "serializedTransactionEIP1559 env tx (Some sg) al = Inr fs" for fs
    using serializedTransactionEIP1559_length [OF that] empty by auto
  have len4844: "length fs = 11"
    if "serializedTransactionEIP4844 env tx (Some sg) al = Inr fs" for fs
    using serializedTransactionEIP4844_length [OF that] empty by auto
  have enc2930: "serializeTransactionEIP2930 env tx (Some sg) =
      serializeTransactionEIP2930 env unsigned None"
    if "assertTransactionEIP2930 env unsigned = assertTransactionEIP2930 env tx"
    unfolding serializeTransactionEIP2930_def by (simp only: that eip2930 other)
  have enc1559: "serializeTransactionEIP1559 env tx (Some sg) =
      serializeTransactionEIP1559 env unsigned None"
    if "assertTransactionEIP1559 env unsigned = assertTransactionEIP1559 env tx"
    unfolding serializeTransactionEIP1559_def by (simp only: that eip1559 other)
  have enc4844: "serializeTransactionEIP4844 env tx (Some sg) =
      serializeTransactionEIP4844 env unsigned None"
    if "assertTransactionEIP4844 env unsigned = assertTransactionEIP4844 env tx"
    unfolding serializeTransactionEIP4844_def by (simp only: that eip4844 other)
  show ?thesis
    using empty whole eip2930 eip1559 eip4844 len2930 len1559 len4844 enc2930 enc1559 enc4844
    by blast
qed

theorem explicit_signature_replaces_record_witness:
  "toYParitySignatureArray ref tx1559_signed (Some sig_without_r) = Inr [] \<and>
   toYParitySignatureArray ref tx1559_signed None =
     Inr [Hex ''0x01'', Hex ''0x01'', Hex ''0x02''] \<and>
   serializeTransactionEIP1559 ref tx1559_signed (Some sig_without_r) =
     serializeTransactionEIP1559 ref tx1559 None"
proof -
  have a: "r sig_without_r = None"
    "tx1559 = tx1559_signed\<lparr>r := None, s := None, v := None, yParity := None\<rparr>"
    "assertTransactionEIP1559 ref tx1559 = assertTransactionEIP1559 ref tx1559_signed"
    "toYParitySignatureArray ref tx1559_signed None =
       Inr [Hex ''0x01'', Hex ''0x01'', Hex ''0x02'']"
    by code_simp+
  from explicit_signature_replaces_record
    [where env = ref and tx = tx1559_signed and sg = sig_without_r and unsigned = tx1559,
       OF a(1,2)] a(3,4)
  show ?thesis by simp
qed

section \<open>The dispatcher\<close>

text \<open>
  C10. When the inferred type is anything but \<^verbatim>\<open>'eip1559'\<close>, \<^verbatim>\<open>'eip2930'\<close> or
  \<^verbatim>\<open>'eip4844'\<close>, \<^verbatim>\<open>serializeTransaction\<close> is the legacy encoder. Once the type is
  inferred the result is the result of one of the four encoders, so the only errors of
  \<^verbatim>\<open>serializeTransaction\<close> are the one thrown by the type inference and those of the
  encoders: the cascade throws nothing of its own.
\<close>

theorem dispatch_falls_back_to_legacy:
  "(\<forall>t. getTransactionType env tx = Inr t \<and>
        t \<noteq> ''eip1559'' \<and> t \<noteq> ''eip2930'' \<and> t \<noteq> ''eip4844'' \<longrightarrow>
        serializeTransaction env tx sig = serializeTransactionLegacy env tx sig) \<and>
   (\<forall>t. getTransactionType env tx = Inr t \<longrightarrow>
        serializeTransaction env tx sig =
          (if t = ''eip1559'' then serializeTransactionEIP1559 env tx sig
           else if t = ''eip2930'' then serializeTransactionEIP2930 env tx sig
           else if t = ''eip4844'' then serializeTransactionEIP4844 env tx sig
           else serializeTransactionLegacy env tx sig)) \<and>
   (\<forall>e. serializeTransaction env tx sig = Inl e \<longrightarrow>
        (\<exists>x. getTransactionType env tx = Inl x \<and> e = External x) \<or>
        serializeTransactionEIP1559 env tx sig = Inl e \<or>
        serializeTransactionEIP2930 env tx sig = Inl e \<or>
        serializeTransactionEIP4844 env tx sig = Inl e \<or>
        serializeTransactionLegacy env tx sig = Inl e)"
  unfolding serializeTransaction_def
  by (cases "getTransactionType env tx") (auto simp: and_then_def external_def)

theorem dispatch_falls_back_to_legacy_witness:
  "serializeTransaction ref (tx155\<lparr>type := Some ''eip7702''\<rparr>) None =
     serializeTransactionLegacy ref (tx155\<lparr>type := Some ''eip7702''\<rparr>) None \<and>
   serializeTransaction ref (tx155\<lparr>type := Some ''eip7702''\<rparr>) None =
     Inr ''0xec098504a817c800825208943535353535353535353535353535353535353535880de0b6b3a764000080018080''"
proof -
  have a: "getTransactionType ref (tx155\<lparr>type := Some ''eip7702''\<rparr>) = Inr ''eip7702''"
    "serializeTransactionLegacy ref (tx155\<lparr>type := Some ''eip7702''\<rparr>) None =
       Inr ''0xec098504a817c800825208943535353535353535353535353535353535353535880de0b6b3a764000080018080''"
    by code_simp+
  from dispatch_falls_back_to_legacy
    [where env = ref and tx = "tx155\<lparr>type := Some ''eip7702''\<rparr>" and sig = None,
       THEN conjunct1, rule_format, where t = "''eip7702''"] a
  show ?thesis by simp
qed

end
